theory Spec2Isabelle
  imports Complex_Main
begin

section \<open>Phone numbers (class MpesaAuth of src/server/utils/mpesaAuth.js)\<close>

text \<open>
  A JavaScript string is modelled as a \<^typ>\<open>string\<close>; a character of the model is a
  code unit below 256. The class \<^verbatim>\<open>[\s\-\+]\<close> of \<^verbatim>\<open>formatPhoneNumber\<close> then holds the
  white space characters of \<^verbatim>\<open>\s\<close> (tab, line feed, vertical tab, form feed, carriage
  return, space and no-break space), the hyphen and the plus sign.
\<close>

definition is_space :: "char \<Rightarrow> bool" where
  "is_space c = (c \<in> set [CHR 0x09, CHR 0x0A, CHR 0x0B, CHR 0x0C, CHR 0x0D, CHR '' '', CHR 0xA0])"

definition is_separator :: "char \<Rightarrow> bool" where
  "is_separator c = (is_space c \<or> c = CHR ''-'' \<or> c = CHR ''+'')"

text \<open>The class \<^verbatim>\<open>\d\<close> of a JavaScript regular expression: the ten ASCII digits.\<close>

definition is_digit :: "char \<Rightarrow> bool" where
  "is_digit c = (c \<in> set ''0123456789'')"

definition startsWith :: "string \<Rightarrow> string \<Rightarrow> bool" where
  "startsWith s p = (take (length p) s = p)"

text \<open>The two messages that the phone functions throw as \<^verbatim>\<open>Error\<close>.\<close>

datatype phone_error = Invalid_phone_number_format | Invalid_Kenyan_phone_number

definition formatPhoneNumber :: "string \<Rightarrow> phone_error + string" where
  "formatPhoneNumber raw =
     (let phone = filter (\<lambda>c. \<not> is_separator c) raw in
      if startsWith phone ''0'' then Inr (''254'' @ drop 1 phone)
      else if startsWith phone ''254'' then Inr phone
      else if startsWith phone ''7'' \<or> startsWith phone ''1'' then Inr (''254'' @ phone)
      else Inl Invalid_phone_number_format)"

text \<open>
  \<^verbatim>\<open>/^254[71]\d{8}$/.test(s)\<close>: without the \<^verbatim>\<open>m\<close> flag the anchors are the two ends
  of \<open>s\<close>, so the whole string is 254, then 7 or 1, then eight digits.
\<close>

fun kenyanPhoneRegex :: "string \<Rightarrow> bool" where
  "kenyanPhoneRegex (c1 # c2 # c3 # c4 # rest) =
     (c1 = CHR ''2'' \<and> c2 = CHR ''5'' \<and> c3 = CHR ''4'' \<and> (c4 = CHR ''7'' \<or> c4 = CHR ''1'') \<and>
      length rest = 8 \<and> list_all is_digit rest)"
| "kenyanPhoneRegex _ = False"

definition validatePhoneNumber :: "string \<Rightarrow> phone_error + string" where
  "validatePhoneNumber phone =
     (case formatPhoneNumber phone of
        Inl e \<Rightarrow> Inl e
      | Inr formattedPhone \<Rightarrow>
          if \<not> kenyanPhoneRegex formattedPhone then Inl Invalid_Kenyan_phone_number
          else Inr formattedPhone)"

text \<open>
  The bare subscriber format of the function's comment (\<^verbatim>\<open>712345678\<close> or \<^verbatim>\<open>112345678\<close>):
  nine digits, the first of them 7 or 1.
\<close>

fun is_subscriber :: "string \<Rightarrow> bool" where
  "is_subscriber (c # rest) =
     ((c = CHR ''7'' \<or> c = CHR ''1'') \<and> length rest = 8 \<and> list_all is_digit rest)"
| "is_subscriber [] = False"


section \<open>Numbers\<close>

text \<open>
  A JavaScript \<^verbatim>\<open>Number\<close> is a binary64 floating-point number. A finite one is modelled
  by the rational that it denotes, and an operation on Numbers by the exact operation on
  rationals followed by the rounding of IEEE 754 to the nearest double, ties to the even
  significand: 53 significant bits above the exponent \<open>-1022\<close>, multiples of
  \<open>2 ^ -1074\<close> below. The infinite Numbers and \<^verbatim>\<open>NaN\<close> are outside the model; the product
  of an amount and \<^verbatim>\<open>0.10\<close> and the difference of the two are no larger than the amount,
  so they do not overflow.
\<close>

fun bit_length :: "nat \<Rightarrow> nat" where
  "bit_length n = (if n = 0 then 0 else Suc (bit_length (n div 2)))"

declare bit_length.simps [simp del]

definition pow2 :: "int \<Rightarrow> rat" where
  "pow2 k = (if 0 \<le> k then 2 ^ nat k else 1 / 2 ^ nat (- k))"

text \<open>The exponent of a positive rational \<open>x\<close>: the \<open>e\<close> with \<open>2 ^ e \<le> x < 2 ^ (e + 1)\<close>.\<close>

definition exponent :: "rat \<Rightarrow> int" where
  "exponent x =
     (if 1 \<le> x then int (bit_length (nat \<lfloor>x\<rfloor>)) - 1
      else - int (bit_length (nat (\<lceil>1 / x\<rceil> - 1))))"

definition round_half_even :: "rat \<Rightarrow> int" where
  "round_half_even q =
     (if q - of_int \<lfloor>q\<rfloor> < 1 / 2 then \<lfloor>q\<rfloor>
      else if 1 / 2 < q - of_int \<lfloor>q\<rfloor> then \<lfloor>q\<rfloor> + 1
      else if even \<lfloor>q\<rfloor> then \<lfloor>q\<rfloor> else \<lfloor>q\<rfloor> + 1)"

text \<open>The double nearest to a rational.\<close>

definition fl64 :: "rat \<Rightarrow> rat" where
  "fl64 x =
     (if x = 0 then 0
      else sgn x *
           of_int (round_half_even (\<bar>x\<bar> / pow2 (max (exponent \<bar>x\<bar>) (- 1022) - 52))) *
           pow2 (max (exponent \<bar>x\<bar>) (- 1022) - 52))"

text \<open>
  The literal \<^verbatim>\<open>0.10\<close>: the double nearest to one tenth, \<open>3602879701896397 / 2 ^ 55\<close>.
\<close>

definition tenth :: rat where
  "tenth = 3602879701896397 / 36028797018963968"

section \<open>Documents (the Task, Transaction and Notification schemas)\<close>

text \<open>
  An \<^verbatim>\<open>ObjectId\<close> is a natural number and a \<^verbatim>\<open>Date\<close> a natural number of clock ticks.
  An amount is the rational that a finite \<^verbatim>\<open>Number\<close> denotes; the products and differences
  of the handlers are rounded to doubles by \<open>fl64\<close>, and \<^verbatim>\<open>Math.round\<close> is the integer
  nearest to its argument, the larger one at a tie. User documents are outside the model, as they are
  outside the data model of the specification: a reference to a user that is set is taken
  to resolve when it is populated. The text of a notification and the raw callback
  payload kept in \<^verbatim>\<open>callbackData\<close> are left out.
\<close>

datatype task_status = T_open | T_in_progress | T_completed | T_paid | T_cancelled

datatype payment_status = P_unpaid | P_paid

record applicant =
  user :: nat
  appliedAt :: nat

record task =
  title :: string
  description :: string
  budget :: rat
  status :: task_status
  paymentStatus :: payment_status
  postedBy :: nat
  assignedTo :: "nat option"
  applicants :: "applicant list"
  completedAt :: "nat option"
  paidAt :: "nat option"

datatype tx_type = C2B | B2C | REVERSAL

datatype tx_status = PENDING | COMPLETED | FAILED | CANCELLED | TIMEOUT

text \<open>A \<^verbatim>\<open>ResultCode\<close> of the gateway: the number 0 on success, or any other JSON scalar.\<close>

datatype result_code = Num int | Str string

record transaction =
  transactionType :: tx_type
  mpesaTransactionId :: "string option"
  mpesaReceiptNumber :: "string option"
  conversationId :: "string option"
  originatorConversationId :: "string option"
  amount :: rat
  commission :: rat
  netAmount :: "rat option"
  phoneNumber :: string
  fromUser :: "nat option"
  toUser :: "nat option"
  tx_task :: "nat option"
  tx_status :: tx_status
  responseCode :: "result_code option"
  responseDescription :: "string option"
  errorMessage :: "string option"
  callbackReceived :: bool
  tx_completedAt :: "nat option"

record notification =
  n_user :: nat
  n_type :: string
  relatedTask :: "nat option"
  relatedUser :: "nat option"
  isRead :: bool
  n_createdAt :: nat

text \<open>
  What a handler sends to the gateway: a call of \<^verbatim>\<open>mpesaAuth.getAccessToken\<close>, the
  \<^verbatim>\<open>c2b/v1/simulate\<close> request with its \<^verbatim>\<open>Amount\<close> and \<^verbatim>\<open>Msisdn\<close>, the
  \<^verbatim>\<open>b2c/v1/paymentrequest\<close> request with its \<^verbatim>\<open>Amount\<close> and \<^verbatim>\<open>PartyB\<close>.
\<close>

datatype gateway_call =
    AccessToken
  | C2B_simulate rat string
  | B2C_paymentrequest int string

text \<open>
  What the gateway does with a request is an input of the handler: whether
  \<^verbatim>\<open>getAccessToken\<close> resolves, and the \<^verbatim>\<open>data\<close> of the response to the request
  (\<open>None\<close> when \<^verbatim>\<open>axios.post\<close> rejects).
\<close>

record gateway_response =
  resp_ConversationID :: "string option"
  resp_OriginatorConversationID :: "string option"
  resp_ResponseCode :: "result_code option"
  resp_ResponseDescription :: "string option"

record gateway =
  token_ok :: bool
  reply :: "gateway_response option"

record store =
  tasks :: "nat \<rightharpoonup> task"
  transactions :: "transaction list"
  notifications :: "notification list"
  gateway_log :: "gateway_call list"
  next_task :: nat

definition init :: store where
  "init = \<lparr>tasks = Map.empty, transactions = [], notifications = [], gateway_log = [],
            next_task = 1\<rparr>"

text \<open>A route answers with a status code and a message; a callback with an envelope.\<close>

type_synonym response = "nat \<times> string"

type_synonym envelope = "result_code \<times> string"

definition success :: envelope where
  "success = (Num 0, ''Success'')"

section \<open>Queries and saves\<close>

text \<open>
  \<^verbatim>\<open>findOne\<close> gives the first document of the collection that matches, here its position
  in the collection, which stands for its \<^verbatim>\<open>_id\<close>: no handler removes a transaction.
\<close>

definition findOne :: "('a \<Rightarrow> bool) \<Rightarrow> 'a list \<Rightarrow> nat option" where
  "findOne P xs =
     (if list_ex P xs then Some (length (takeWhile (\<lambda>x. \<not> P x) xs)) else None)"

text \<open>The validators of the transaction schema: \<^verbatim>\<open>min: 0\<close> and \<^verbatim>\<open>match: /^254\d{9}$/\<close>.\<close>

fun phoneNumber_match :: "string \<Rightarrow> bool" where
  "phoneNumber_match (c1 # c2 # c3 # rest) =
     (c1 = CHR ''2'' \<and> c2 = CHR ''5'' \<and> c3 = CHR ''4'' \<and> length rest = 9 \<and>
      list_all is_digit rest)"
| "phoneNumber_match _ = False"

definition validate_transaction :: "transaction \<Rightarrow> bool" where
  "validate_transaction t =
     (0 \<le> amount t \<and> 0 \<le> commission t \<and>
      (case netAmount t of None \<Rightarrow> True | Some n \<Rightarrow> 0 \<le> n) \<and>
      phoneNumber_match (phoneNumber t))"

text \<open>
  \<^verbatim>\<open>transactionSchema.pre('save')\<close>: a payout with a truthy \<^verbatim>\<open>amount\<close> and a falsy
  \<^verbatim>\<open>netAmount\<close> gets \<^verbatim>\<open>this.amount * 0.10\<close> for its commission and
  \<^verbatim>\<open>this.amount - this.commission\<close> for its net amount, both in doubles.
\<close>

definition pre_save :: "transaction \<Rightarrow> transaction" where
  "pre_save t =
     (if transactionType t = B2C \<and> amount t \<noteq> 0 \<and> (netAmount t = None \<or> netAmount t = Some 0)
      then t\<lparr>commission := fl64 (amount t * tenth),
             netAmount := Some (fl64 (amount t - fl64 (amount t * tenth)))\<rparr>
      else t)"

text \<open>Saving a new transaction validates it, runs the hook and appends it.\<close>

definition insert_transaction :: "store \<Rightarrow> transaction \<Rightarrow> (store \<times> nat) option" where
  "insert_transaction s t =
     (if validate_transaction t
      then Some (s\<lparr>transactions := transactions s @ [pre_save t]\<rparr>, length (transactions s))
      else None)"

definition save_transaction :: "store \<Rightarrow> nat \<Rightarrow> transaction \<Rightarrow> store" where
  "save_transaction s i t = s\<lparr>transactions := (transactions s)[i := pre_save t]\<rparr>"

definition save_task :: "store \<Rightarrow> nat \<Rightarrow> task \<Rightarrow> store" where
  "save_task s taskId t = s\<lparr>tasks := (tasks s)(taskId \<mapsto> t)\<rparr>"

section \<open>Notifications (createNotification of the notifications router)\<close>

definition notification_types :: "string list" where
  "notification_types = [''application'', ''assignment'', ''completion'', ''payment'', ''general'']"

text \<open>
  \<^verbatim>\<open>createNotification\<close> saves the notification, or throws when the schema refuses its
  type (\<open>None\<close>).
\<close>

definition createNotification ::
  "store \<Rightarrow> nat \<Rightarrow> nat \<Rightarrow> string \<Rightarrow> nat option \<Rightarrow> nat option \<Rightarrow> store option" where
  "createNotification s now userId type relTask relUser =
     (if type \<in> set notification_types
      then Some (s\<lparr>notifications := notifications s @
             [\<lparr>n_user = userId, n_type = type, relatedTask = relTask, relatedUser = relUser,
               isRead = False, n_createdAt = now\<rparr>]\<rparr>)
      else None)"

text \<open>
  \<^verbatim>\<open>try { await createNotification(...) } catch (notifError) { console.error(...) }\<close>:
  a notification that fails leaves the store as it was.
\<close>

definition try_notify :: "store \<Rightarrow> store option \<Rightarrow> store" where
  "try_notify s r = (case r of None \<Rightarrow> s | Some s' \<Rightarrow> s')"


section \<open>Task routes (the tasks router, in src/server/models/Message.js)\<close>

text \<open>
  A handler takes the store, the time of the call, the authenticated caller
  (\<^verbatim>\<open>req.userId\<close>) and the fields of the request, and gives the store it leaves and its
  response. A field of the body that is missing is the empty string, or 0 for a number:
  the handlers test them with \<^verbatim>\<open>!\<close>.
\<close>

definition trim :: "string \<Rightarrow> string" where
  "trim str = rev (dropWhile is_space (rev (dropWhile is_space str)))"

text \<open>
  The validators of the task schema on a new task, whose strings were trimmed. The answer
  to \<^verbatim>\<open>create\<close> is 201 with the task for its body, here with no message.
\<close>

definition validate_task :: "task \<Rightarrow> bool" where
  "validate_task t =
     (title t \<noteq> [] \<and> length (title t) \<le> 100 \<and>
      description t \<noteq> [] \<and> length (description t) \<le> 1000 \<and> 0 \<le> budget t)"

definition create_task :: "store \<Rightarrow> nat \<Rightarrow> string \<Rightarrow> string \<Rightarrow> rat \<Rightarrow> store \<times> response" where
  "create_task s userId ttl descr bud =
     (if ttl = [] \<or> descr = [] \<or> bud = 0 then (s, (400, ''All fields are required''))
      else
        let t = \<lparr>title = trim ttl, description = trim descr, budget = bud, status = T_open,
                 paymentStatus = P_unpaid, postedBy = userId, assignedTo = None,
                 applicants = [], completedAt = None, paidAt = None\<rparr>
        in if \<not> validate_task t then (s, (500, ''Server error creating task''))
           else (s\<lparr>tasks := (tasks s)(next_task s \<mapsto> t), next_task := Suc (next_task s)\<rparr>,
                 (201, [])))"

definition apply_task :: "store \<Rightarrow> nat \<Rightarrow> nat \<Rightarrow> nat \<Rightarrow> store \<times> response" where
  "apply_task s now taskId userId =
     (case tasks s taskId of
        None \<Rightarrow> (s, (404, ''Task not found''))
      | Some t \<Rightarrow>
          if postedBy t = userId then (s, (400, ''You cannot apply to your own task''))
          else if list_ex (\<lambda>app. user app = userId) (applicants t)
          then (s, (400, ''You already applied to this task''))
          else
            let s1 = save_task s taskId
                       (t\<lparr>applicants := applicants t @ [\<lparr>user = userId, appliedAt = now\<rparr>]\<rparr>)
            in (try_notify s1
                  (createNotification s1 now (postedBy t) ''application'' (Some taskId) (Some userId)),
                (200, ''Applied successfully'')))"

text \<open>
  \<^verbatim>\<open>req.body.applicantId\<close>: missing, a value that is no \<^verbatim>\<open>ObjectId\<close>, or an \<^verbatim>\<open>ObjectId\<close>.
  \<^verbatim>\<open>assign\<close> hands it to \<^verbatim>\<open>User.findById\<close>, which throws on a value that it cannot cast
  (the handler's \<^verbatim>\<open>catch\<close> answers 500) and finds nothing for a missing one; the user it
  finds is not used. With no identifier the task is saved with no assignee, and the
  notification, which has no user, is refused by its schema.
\<close>

datatype id_param = Absent | Malformed | Id nat

definition assign_task :: "store \<Rightarrow> nat \<Rightarrow> nat \<Rightarrow> nat \<Rightarrow> id_param \<Rightarrow> store \<times> response" where
  "assign_task s now taskId userId applicantId =
     (case tasks s taskId of
        None \<Rightarrow> (s, (404, ''Task not found''))
      | Some t \<Rightarrow>
          if postedBy t \<noteq> userId then (s, (403, ''Not authorized''))
          else
            (case applicantId of
               Malformed \<Rightarrow> (s, (500, ''Server error assigning task''))
             | Absent \<Rightarrow>
                 (save_task s taskId (t\<lparr>assignedTo := None, status := T_in_progress\<rparr>),
                  (200, ''Task assigned successfully''))
             | Id applicant \<Rightarrow>
                 let s1 = save_task s taskId
                            (t\<lparr>assignedTo := Some applicant, status := T_in_progress\<rparr>)
                 in (try_notify s1
                       (createNotification s1 now applicant ''assignment'' (Some taskId)
                          (Some userId)),
                     (200, ''Task assigned successfully''))))"

text \<open>
  \<^verbatim>\<open>task.assignedTo.toString()\<close> throws on a task that has no assignee; the handler's
  \<^verbatim>\<open>catch\<close> answers 500.
\<close>

definition complete_task :: "store \<Rightarrow> nat \<Rightarrow> nat \<Rightarrow> nat \<Rightarrow> store \<times> response" where
  "complete_task s now taskId userId =
     (case tasks s taskId of
        None \<Rightarrow> (s, (404, ''Task not found''))
      | Some t \<Rightarrow>
          (case assignedTo t of
             None \<Rightarrow> (s, (500, ''Server error completing task''))
           | Some assignee \<Rightarrow>
               if assignee \<noteq> userId
               then (s, (403, ''Only the assigned user can complete this task''))
               else
                 let s1 = save_task s taskId (t\<lparr>status := T_completed, completedAt := Some now\<rparr>)
                 in (try_notify s1
                       (createNotification s1 now (postedBy t) ''completion'' (Some taskId)
                          (Some userId)),
                     (200, ''Task marked as completed''))))"

text \<open>
  In \<^verbatim>\<open>pay\<close> the notification goes to \<^verbatim>\<open>task.assignedTo._id\<close>, read inside the
  \<^verbatim>\<open>try\<close>: with no assignee it throws there and no notification is made.
\<close>

definition pay_task :: "store \<Rightarrow> nat \<Rightarrow> nat \<Rightarrow> nat \<Rightarrow> store \<times> response" where
  "pay_task s now taskId userId =
     (case tasks s taskId of
        None \<Rightarrow> (s, (404, ''Task not found''))
      | Some t \<Rightarrow>
          if postedBy t \<noteq> userId then (s, (403, ''Only the task owner can process payment''))
          else if status t \<noteq> T_completed
          then (s, (400, ''Task must be completed before payment''))
          else if paymentStatus t = P_paid then (s, (400, ''Task already paid''))
          else
            let s1 = save_task s taskId (t\<lparr>paymentStatus := P_paid, paidAt := Some now\<rparr>)
            in ((case assignedTo t of
                   None \<Rightarrow> s1
                 | Some assignee \<Rightarrow>
                     try_notify s1
                       (createNotification s1 now assignee ''payment'' (Some taskId) (Some userId))),
                (200, ''Payment processed successfully'')))"

section \<open>Payment routes (the M-Pesa router, src/unnamed/part_001)\<close>

definition new_transaction ::
  "tx_type \<Rightarrow> rat \<Rightarrow> rat \<Rightarrow> rat option \<Rightarrow> string \<Rightarrow> nat option \<Rightarrow> nat option \<Rightarrow> nat option \<Rightarrow>
   transaction" where
  "new_transaction ty amt fee net phone from to tid =
     \<lparr>transactionType = ty, mpesaTransactionId = None, mpesaReceiptNumber = None,
      conversationId = None, originatorConversationId = None, amount = amt, commission = fee,
      netAmount = net, phoneNumber = phone, fromUser = from, toUser = to, tx_task = tid,
      tx_status = PENDING, responseCode = None, responseDescription = None,
      errorMessage = None, callbackReceived = False, tx_completedAt = None\<rparr>"

definition log_call :: "store \<Rightarrow> gateway_call \<Rightarrow> store" where
  "log_call s c = s\<lparr>gateway_log := gateway_log s @ [c]\<rparr>"

definition with_response :: "transaction \<Rightarrow> gateway_response \<Rightarrow> transaction" where
  "with_response t r =
     t\<lparr>responseCode := resp_ResponseCode r,
       responseDescription := resp_ResponseDescription r,
       conversationId := resp_ConversationID r,
       originatorConversationId := resp_OriginatorConversationID r\<rparr>"

text \<open>
  \<^verbatim>\<open>simulate-c2b\<close>: the pending collection is saved before the gateway is called, and
  stays when the call fails. A phone number that \<^verbatim>\<open>validatePhoneNumber\<close> refuses and a
  transaction that the schema refuses throw into the handler's \<^verbatim>\<open>catch\<close> (500).
\<close>

definition simulate_c2b ::
  "store \<Rightarrow> nat \<Rightarrow> nat option \<Rightarrow> string \<Rightarrow> rat \<Rightarrow> gateway \<Rightarrow> store \<times> response" where
  "simulate_c2b s userId taskId phone amt gw =
     (case taskId of
        None \<Rightarrow> (s, (400, ''Task ID, phone number, and amount are required''))
      | Some tid \<Rightarrow>
          if phone = [] \<or> amt = 0
          then (s, (400, ''Task ID, phone number, and amount are required''))
          else
            (case tasks s tid of
               None \<Rightarrow> (s, (404, ''Task not found''))
             | Some t \<Rightarrow>
                 if postedBy t \<noteq> userId then (s, (403, ''Only task owner can initiate payment''))
                 else
                   (case validatePhoneNumber phone of
                      Inl e \<Rightarrow> (s, (500, ''Failed to simulate C2B payment''))
                    | Inr formattedPhone \<Rightarrow>
                        (case insert_transaction s
                                (new_transaction C2B amt 0 None formattedPhone (Some userId) None
                                   (Some tid)) of
                           None \<Rightarrow> (s, (500, ''Failed to simulate C2B payment''))
                         | Some (s1, i) \<Rightarrow>
                             let s2 = log_call s1 AccessToken in
                             if \<not> token_ok gw then (s2, (500, ''Failed to simulate C2B payment''))
                             else
                               let s3 = log_call s2 (C2B_simulate amt formattedPhone) in
                               (case reply gw of
                                  None \<Rightarrow> (s3, (500, ''Failed to simulate C2B payment''))
                                | Some r \<Rightarrow>
                                    (save_transaction s3 i (with_response (transactions s3 ! i) r),
                                     (200, ''C2B payment simulated successfully'')))))))"

text \<open>
  \<^verbatim>\<open>BillRefNumber?.replace('TASK_', '')\<close> replaces the first occurrence. The string that
  is left is cast to an \<^verbatim>\<open>ObjectId\<close> by the query: here a natural number in decimal; a
  string that is none makes the query throw (\<open>None\<close>).
\<close>

fun replace_first :: "string \<Rightarrow> string \<Rightarrow> string \<Rightarrow> string" where
  "replace_first pat rep [] = (if pat = [] then rep else [])"
| "replace_first pat rep (c # cs) =
     (if startsWith (c # cs) pat then rep @ drop (length pat) (c # cs)
      else c # replace_first pat rep cs)"

definition cast_ObjectId :: "string \<Rightarrow> nat option" where
  "cast_ObjectId str =
     (if str \<noteq> [] \<and> list_all is_digit str
      then Some (foldl (\<lambda>n c. 10 * n + (of_char c - 48)) 0 str)
      else None)"

definition confirmation ::
  "store \<Rightarrow> nat \<Rightarrow> string option \<Rightarrow> string option \<Rightarrow> store \<times> envelope" where
  "confirmation s now BillRefNumber TransID =
     (case map_option (replace_first ''TASK_'' []) BillRefNumber of
        None \<Rightarrow> (s, success)
      | Some taskId \<Rightarrow>
          if taskId = [] then (s, success)
          else
            (case cast_ObjectId taskId of
               None \<Rightarrow> (s, success)
             | Some tid \<Rightarrow>
                 (case findOne (\<lambda>x. tx_task x = Some tid \<and> transactionType x = C2B \<and>
                                    tx_status x = PENDING) (transactions s) of
                    None \<Rightarrow> (s, success)
                  | Some i \<Rightarrow>
                      let tx = transactions s ! i;
                          s1 = save_transaction s i
                                 (tx\<lparr>tx_status := COMPLETED, mpesaTransactionId := TransID,
                                     mpesaReceiptNumber := TransID, tx_completedAt := Some now,
                                     callbackReceived := True\<rparr>)
                      in (case tasks s1 tid of
                            None \<Rightarrow> (s1, success)
                          | Some t \<Rightarrow>
                              let s2 = save_task s1 tid (t\<lparr>paymentStatus := P_paid, paidAt := Some now\<rparr>)
                              in ((case fromUser tx of
                                     None \<Rightarrow> s2
                                   | Some payer \<Rightarrow>
                                       try_notify s2
                                         (createNotification s2 now payer ''payment'' (Some tid) None)),
                                  success)))))"

text \<open>
  \<^verbatim>\<open>validation\<close> only reads. \<^verbatim>\<open>TransAmount\<close> is the number that \<^verbatim>\<open>parseFloat\<close> finds
  in it, \<open>None\<close> when it finds none (\<^verbatim>\<open>NaN\<close>, which differs from every budget).
\<close>

definition validation :: "store \<Rightarrow> string option \<Rightarrow> rat option \<Rightarrow> envelope" where
  "validation s BillRefNumber TransAmount =
     (case map_option (replace_first ''TASK_'' []) BillRefNumber of
        None \<Rightarrow> (Str ''C2B00011'', ''Invalid Bill Reference'')
      | Some taskId \<Rightarrow>
          if taskId = [] then (Str ''C2B00011'', ''Invalid Bill Reference'')
          else
            (case cast_ObjectId taskId of
               None \<Rightarrow> (Str ''C2B00014'', ''Validation failed'')
             | Some tid \<Rightarrow>
                 (case tasks s tid of
                    None \<Rightarrow> (Str ''C2B00012'', ''Task not found'')
                  | Some t \<Rightarrow>
                      if TransAmount \<noteq> Some (budget t)
                      then (Str ''C2B00013'', ''Amount does not match task budget'')
                      else success)))"


text \<open>
  \<^verbatim>\<open>b2c-payment\<close>: the checks, then the phone number, the pending payout with the gross
  amount of the collection, its commission \<^verbatim>\<open>totalAmount * 0.10\<close> and its net amount
  \<^verbatim>\<open>totalAmount - commission\<close>, both computed in doubles, then the gateway, which is sent
  \<^verbatim>\<open>Math.round(payoutAmount)\<close>.
\<close>

definition b2c_payment ::
  "store \<Rightarrow> nat \<Rightarrow> nat option \<Rightarrow> string \<Rightarrow> gateway \<Rightarrow> store \<times> response" where
  "b2c_payment s userId taskId phone gw =
     (case taskId of
        None \<Rightarrow> (s, (400, ''Task ID and phone number are required''))
      | Some tid \<Rightarrow>
          if phone = [] then (s, (400, ''Task ID and phone number are required''))
          else
            (case tasks s tid of
               None \<Rightarrow> (s, (404, ''Task not found''))
             | Some t \<Rightarrow>
                 if postedBy t \<noteq> userId then (s, (403, ''Only task owner can trigger payment''))
                 else if status t \<noteq> T_completed
                 then (s, (400, ''Task must be completed before payment''))
                 else
                   (case assignedTo t of
                      None \<Rightarrow> (s, (400, ''Task has no assigned user to pay''))
                    | Some assignee \<Rightarrow>
                        (case findOne (\<lambda>x. tx_task x = Some tid \<and> transactionType x = C2B \<and>
                                           tx_status x = COMPLETED) (transactions s) of
                           None \<Rightarrow> (s, (400, ''No confirmed payment found for this task''))
                         | Some c \<Rightarrow>
                             if findOne (\<lambda>x. tx_task x = Some tid \<and> transactionType x = B2C \<and>
                                             (tx_status x = PENDING \<or> tx_status x = COMPLETED))
                                  (transactions s) \<noteq> None
                             then (s, (400, ''Payment already processed for this task''))
                             else
                               (case validatePhoneNumber phone of
                                  Inl e \<Rightarrow> (s, (500, ''Failed to initiate B2C payment''))
                                | Inr formattedPhone \<Rightarrow>
                                    let totalAmount = amount (transactions s ! c);
                                        fee = fl64 (totalAmount * tenth);
                                        payoutAmount = fl64 (totalAmount - fee)
                                    in (case insert_transaction s
                                               (new_transaction B2C totalAmount fee (Some payoutAmount)
                                                  formattedPhone (Some userId) (Some assignee)
                                                  (Some tid)) of
                                          None \<Rightarrow> (s, (500, ''Failed to initiate B2C payment''))
                                        | Some (s1, i) \<Rightarrow>
                                            let s2 = log_call s1 AccessToken in
                                            if \<not> token_ok gw
                                            then (s2, (500, ''Failed to initiate B2C payment''))
                                            else
                                              let s3 = log_call s2
                                                         (B2C_paymentrequest (round payoutAmount)
                                                            formattedPhone)
                                              in (case reply gw of
                                                    None \<Rightarrow>
                                                      (s3, (500, ''Failed to initiate B2C payment''))
                                                  | Some r \<Rightarrow>
                                                      (save_transaction s3 i
                                                         (with_response (transactions s3 ! i) r),
                                                       (200, ''B2C payment initiated successfully'')))))))))"

text \<open>
  The body of a payout callback: \<^verbatim>\<open>req.body.Result\<close>, whose \<^verbatim>\<open>ResultParameter\<close> list
  holds keys with their values. A body with no \<^verbatim>\<open>Result\<close> is \<open>None\<close>.
\<close>

record result_payload =
  ConversationID :: "string option"
  OriginatorConversationID :: "string option"
  ResultCode :: "result_code option"
  ResultDesc :: "string option"
  ResultParameter :: "(string \<times> string) list"

text \<open>\<^verbatim>\<open>populate('task')\<close>: the task of a transaction when it is in the store.\<close>

definition populate_task :: "store \<Rightarrow> nat option \<Rightarrow> nat option" where
  "populate_task s r =
     (case r of
        None \<Rightarrow> None
      | Some tid \<Rightarrow> (case tasks s tid of None \<Rightarrow> None | Some t \<Rightarrow> Some tid))"

text \<open>
  \<^verbatim>\<open>b2c-result\<close> looks the payout up by either conversation identifier, whatever its
  status. A field of the query that is \<^verbatim>\<open>undefined\<close> matches the transactions that
  lack it. Destructuring a missing \<^verbatim>\<open>Result\<close> and \<^verbatim>\<open>ResultCode.toString()\<close> of a
  missing code throw into the handler's \<^verbatim>\<open>catch\<close>, which answers as a success does;
  \<open>responseCode\<close> keeps the code for the string of it.
\<close>

definition b2c_result :: "store \<Rightarrow> nat \<Rightarrow> result_payload option \<Rightarrow> store \<times> envelope" where
  "b2c_result s now body =
     (case body of
        None \<Rightarrow> (s, success)
      | Some Result \<Rightarrow>
          (case findOne (\<lambda>x. (conversationId x = ConversationID Result \<or>
                               originatorConversationId x = OriginatorConversationID Result) \<and>
                              transactionType x = B2C) (transactions s) of
             None \<Rightarrow> (s, success)
           | Some i \<Rightarrow>
               let tx = transactions s ! i in
               if ResultCode Result = Some (Num 0) then
                 let tx1 = tx\<lparr>tx_status := COMPLETED, tx_completedAt := Some now\<rparr>;
                     tx2 = (case List.find (\<lambda>param. fst param = ''TransactionReceipt'' \<or>
                                                     fst param = ''TransactionID'')
                                   (ResultParameter Result) of
                              None \<Rightarrow> tx1
                            | Some param \<Rightarrow>
                                tx1\<lparr>mpesaTransactionId := Some (snd param),
                                    mpesaReceiptNumber := Some (snd param)\<rparr>);
                     s1 = (case populate_task s (tx_task tx) of
                             None \<Rightarrow> s
                           | Some tid \<Rightarrow>
                               (case tasks s tid of
                                  None \<Rightarrow> s
                                | Some t \<Rightarrow>
                                    save_task s tid (t\<lparr>paymentStatus := P_paid, status := T_paid\<rparr>)));
                     s2 = (case toUser tx of
                             None \<Rightarrow> s1
                           | Some worker \<Rightarrow>
                               (case populate_task s (tx_task tx) of
                                  None \<Rightarrow> s1
                                | Some tid \<Rightarrow>
                                    try_notify s1
                                      (createNotification s1 now worker ''payment'' (Some tid) None)))
                 in (save_transaction s2 i
                       (tx2\<lparr>responseCode := Some (Num 0), responseDescription := ResultDesc Result,
                            callbackReceived := True\<rparr>),
                     success)
               else
                 (case ResultCode Result of
                    None \<Rightarrow> (s, success)
                  | Some code \<Rightarrow>
                      (save_transaction s i
                         (tx\<lparr>tx_status := FAILED, errorMessage := ResultDesc Result,
                             responseCode := Some code, responseDescription := ResultDesc Result,
                             callbackReceived := True\<rparr>),
                       success))))"

text \<open>\<^verbatim>\<open>x || d\<close> on an optional string: \<open>d\<close> when \<open>x\<close> is missing or empty.\<close>

definition or_default :: "string option \<Rightarrow> string \<Rightarrow> string" where
  "or_default x d = (case x of None \<Rightarrow> d | Some v \<Rightarrow> if v = [] then d else v)"

text \<open>
  \<^verbatim>\<open>b2c-timeout\<close> looks up a payout that is still pending. Its notification has the type
  \<^verbatim>\<open>'error'\<close>.
\<close>

definition b2c_timeout :: "store \<Rightarrow> nat \<Rightarrow> result_payload option \<Rightarrow> store \<times> envelope" where
  "b2c_timeout s now body =
     (case body of
        None \<Rightarrow> (s, success)
      | Some Result \<Rightarrow>
          (case findOne (\<lambda>x. (conversationId x = ConversationID Result \<or>
                               originatorConversationId x = OriginatorConversationID Result) \<and>
                              transactionType x = B2C \<and> tx_status x = PENDING)
                  (transactions s) of
             None \<Rightarrow> (s, success)
           | Some i \<Rightarrow>
               let tx = transactions s ! i;
                   s1 = save_transaction s i
                          (tx\<lparr>tx_status := TIMEOUT,
                              errorMessage := Some (or_default (ResultDesc Result) ''Transaction timed out''),
                              responseCode :=
                                (case ResultCode Result of
                                   None \<Rightarrow> Some (Str ''TIMEOUT'')
                                 | Some code \<Rightarrow> if code = Str [] then Some (Str ''TIMEOUT'') else Some code),
                              responseDescription :=
                                Some (or_default (ResultDesc Result) ''Request timed out''),
                              callbackReceived := True\<rparr>)
               in ((case fromUser tx of
                      None \<Rightarrow> s1
                    | Some payer \<Rightarrow>
                        try_notify s1
                          (createNotification s1 now payer ''error'' (populate_task s1 (tx_task tx))
                             None)),
                   success)))"

section \<open>Runs of the system\<close>

text \<open>The operations of the two routers, with the caller and the fields of each request.\<close>

datatype op =
    Create_task nat string string rat
  | Apply_task nat nat
  | Assign_task nat nat id_param
  | Complete_task nat nat
  | Pay_task nat nat
  | Simulate_c2b nat "nat option" string rat gateway
  | Confirmation "string option" "string option"
  | Validation "string option" "rat option"
  | B2c_payment nat "nat option" string gateway
  | B2c_result "result_payload option"
  | B2c_timeout "result_payload option"

fun exec :: "store \<Rightarrow> nat \<Rightarrow> op \<Rightarrow> store" where
  "exec s now (Create_task userId ttl descr bud) = fst (create_task s userId ttl descr bud)"
| "exec s now (Apply_task taskId userId) = fst (apply_task s now taskId userId)"
| "exec s now (Assign_task taskId userId applicantId) =
     fst (assign_task s now taskId userId applicantId)"
| "exec s now (Complete_task taskId userId) = fst (complete_task s now taskId userId)"
| "exec s now (Pay_task taskId userId) = fst (pay_task s now taskId userId)"
| "exec s now (Simulate_c2b userId taskId phone amt gw) =
     fst (simulate_c2b s userId taskId phone amt gw)"
| "exec s now (Confirmation BillRefNumber TransID) = fst (confirmation s now BillRefNumber TransID)"
| "exec s now (Validation BillRefNumber TransAmount) = s"
| "exec s now (B2c_payment userId taskId phone gw) = fst (b2c_payment s userId taskId phone gw)"
| "exec s now (B2c_result body) = fst (b2c_result s now body)"
| "exec s now (B2c_timeout body) = fst (b2c_timeout s now body)"

text \<open>A run: the operations in the order of their arrival, each with the time of its call.\<close>

fun run :: "store \<Rightarrow> (nat \<times> op) list \<Rightarrow> store" where
  "run s [] = s"
| "run s (x # xs) = run (exec s (fst x) (snd x)) xs"

section \<open>Properties of the specification\<close>


text \<open>
  The amounts of a payout: the commission is the product of the gross amount and
  \<^verbatim>\<open>0.10\<close>, the net amount the difference of the gross amount and the commission, both
  as doubles.
\<close>

definition payout_amounts :: "transaction \<Rightarrow> bool" where
  "payout_amounts x =
     (commission x = fl64 (amount x * tenth) \<and>
      netAmount x = Some (fl64 (amount x - commission x)))"

text \<open>
  What the collection callbacks read in their bill reference: the string that is left of
  it (empty when there is none), and the task that this string names.
\<close>

definition bill_reference :: "string option \<Rightarrow> string" where
  "bill_reference BillRefNumber =
     (case BillRefNumber of None \<Rightarrow> [] | Some ref \<Rightarrow> replace_first ''TASK_'' [] ref)"


definition bill_task :: "string option \<Rightarrow> nat option" where
  "bill_task BillRefNumber =
     (case BillRefNumber of
        None \<Rightarrow> None
      | Some ref \<Rightarrow> cast_ObjectId (replace_first ''TASK_'' [] ref))"

section \<open>Scenarios\<close>

text \<open>
  The owner is user 10 and the worker user 20; the first task of a store gets the
  identifier 1. A gateway that accepts a request answers with the conversation
  identifiers it gives to it, and reports the payout under them.
\<close>

definition accepted :: "string \<Rightarrow> string \<Rightarrow> gateway" where
  "accepted conv orig =
     \<lparr>token_ok = True,
      reply = Some \<lparr>resp_ConversationID = Some conv, resp_OriginatorConversationID = Some orig,
                    resp_ResponseCode = Some (Str ''0''),
                    resp_ResponseDescription = Some ''Accept the service request successfully.''\<rparr>\<rparr>"

definition payout_done :: "string \<Rightarrow> string \<Rightarrow> result_payload" where
  "payout_done conv orig =
     \<lparr>ConversationID = Some conv, OriginatorConversationID = Some orig,
      ResultCode = Some (Num 0),
      ResultDesc = Some ''The service request is processed successfully.'',
      ResultParameter = [(''TransactionReceipt'', ''QK2'')]\<rparr>"

definition post :: "(nat \<times> op) list" where
  "post = [(1, Create_task 10 ''Essay'' ''Proofread my essay'' 500)]"

definition work :: "(nat \<times> op) list" where
  "work = [(2, Apply_task 1 20), (3, Assign_task 1 10 (Id 20)), (4, Complete_task 1 20)]"

definition collect :: "(nat \<times> op) list" where
  "collect = [(5, Simulate_c2b 10 (Some 1) ''0712345678'' 500 (accepted ''c1'' ''o1'')),
              (6, Confirmation (Some ''TASK_1'') (Some ''QK1''))]"

definition pay_out :: "(nat \<times> op) list" where
  "pay_out = [(7, B2c_payment 10 (Some 1) ''0722000000'' (accepted ''c2'' ''o2''))]"

text \<open>The task of the scenarios, as it is posted.\<close>

definition essay :: task where
  "essay = \<lparr>title = ''Essay'', description = ''Proofread my essay'', budget = 500,
             status = T_open, paymentStatus = P_unpaid, postedBy = 10, assignedTo = None,
             applicants = [], completedAt = None, paidAt = None\<rparr>"

definition settle :: "(nat \<times> op) list" where
  "settle = [(8, B2c_result (Some (payout_done ''c2'' ''o2'')))]"

text \<open>The essay once worker 20 has applied, has been assigned and has completed it.\<close>

definition essay_done :: task where
  "essay_done = essay\<lparr>status := T_completed, assignedTo := Some 20,
                       applicants := [\<lparr>user = 20, appliedAt = 2\<rparr>], completedAt := Some 4\<rparr>"

text \<open>The type and the amounts of a transaction are those of another.\<close>

definition same_amounts :: "transaction \<Rightarrow> transaction \<Rightarrow> bool" where
  "same_amounts x y =
     (transactionType y = transactionType x \<and> amount y = amount x \<and>
      commission y = commission x \<and> netAmount y = netAmount x)"

text \<open>A collection of 1005 for the essay, confirmed, for a payout with a net amount of 904.5.\<close>

definition collect_1005 :: "(nat \<times> op) list" where
  "collect_1005 = [(5, Simulate_c2b 10 (Some 1) ''0712345678'' 1005 (accepted ''c1'' ''o1'')),
                   (6, Confirmation (Some ''TASK_1'') (Some ''QK1''))]"

text \<open>
  A collection of 3, whose tenth is no double, and one of the double nearest to
  3.888888888888889, for a payout with the net amount 3.5.
\<close>

definition collect_3 :: "(nat \<times> op) list" where
  "collect_3 = [(5, Simulate_c2b 10 (Some 1) ''0712345678'' 3 (accepted ''c1'' ''o1'')),
                (6, Confirmation (Some ''TASK_1'') (Some ''QK1''))]"

definition collect_odd :: "(nat \<times> op) list" where
  "collect_odd = [(5, Simulate_c2b 10 (Some 1) ''0712345678''
                        (8756999275442631 / 2251799813685248) (accepted ''c1'' ''o1'')),
                  (6, Confirmation (Some ''TASK_1'') (Some ''QK1''))]"

definition collect_1000 :: "(nat \<times> op) list" where
  "collect_1000 = [(5, Simulate_c2b 10 (Some 1) ''0712345678'' 1000 (accepted ''c1'' ''o1'')),
                   (6, Confirmation (Some ''TASK_1'') (Some ''QK1''))]"

text \<open>
  Every transaction of a collection whose amounts are those of a payout is, at the same
  position of another collection, a transaction of the same type and amounts.
\<close>

definition amounts_kept :: "transaction list \<Rightarrow> transaction list \<Rightarrow> bool" where
  "amounts_kept xs ys =
     (\<forall>i<length xs. payout_amounts (xs ! i) \<longrightarrow>
        i < length ys \<and> same_amounts (xs ! i) (ys ! i))"

section \<open>Doubles\<close>

text \<open>Rules that evaluate the rounding on numerals.\<close>

lemma bit_length_numeral [simp]:
  "bit_length 0 = 0" "bit_length (Suc 0) = 1" "bit_length 1 = 1"
  "bit_length (numeral (Num.Bit0 k)) = Suc (bit_length (numeral k))"
  "bit_length (numeral (Num.Bit1 k)) = Suc (bit_length (numeral k))"
  by (simp_all add: bit_length.simps [of 0] bit_length.simps [of "Suc 0"] bit_length.simps [of 1]
      bit_length.simps [of "numeral (Num.Bit0 k)"] bit_length.simps [of "numeral (Num.Bit1 k)"]
      bit_length.simps [of "numeral Num.One"])

lemma floor_rat_numeral [simp]:
  "\<lfloor>numeral a / numeral b :: rat\<rfloor> = numeral a div numeral b"
  "\<lfloor>1 / numeral b :: rat\<rfloor> = 1 div numeral b"
  using floor_divide_of_int_eq [of "numeral a" "numeral b", where ?'a = rat]
    floor_divide_of_int_eq [of 1 "numeral b", where ?'a = rat] by simp_all

lemma ceiling_rat_numeral [simp]:
  "\<lceil>numeral a / numeral b :: rat\<rceil> = - (- numeral a div numeral b)"
  "\<lceil>1 / numeral b :: rat\<rceil> = - (- 1 div numeral b)"
  using floor_divide_of_int_eq [of "- numeral a" "numeral b", where ?'a = rat]
    floor_divide_of_int_eq [of "- 1" "numeral b", where ?'a = rat]
  by (simp_all add: ceiling_def)

lemmas double_defs = fl64_def pow2_def exponent_def round_half_even_def tenth_def

text \<open>
  The exponent of a positive rational is that of its binade, and the rounding is within
  half a unit in the last place of its argument.
\<close>

lemma round_half_even_near: "\<bar>of_int (round_half_even q) - q\<bar> \<le> 1 / 2"
proof -
  have f: "of_int \<lfloor>q\<rfloor> \<le> q" "q < of_int \<lfloor>q\<rfloor> + 1" by linarith+
  show ?thesis
    unfolding round_half_even_def using f by (simp add: abs_if) linarith
qed

lemma pow2_pos: "0 < pow2 k"
  by (simp add: pow2_def)

lemma scale_abs:
  assumes "0 < (u::rat)"
  shows "\<bar>a - b / u\<bar> * u = \<bar>a * u - b\<bar>"
proof -
  have "\<bar>a - b / u\<bar> * u = \<bar>(a - b / u) * u\<bar>"
    using assms by (simp add: abs_mult)
  also have "(a - b / u) * u = a * u - b"
    using assms by (simp add: field_simps)
  finally show ?thesis .
qed

lemma fl64_near:
  "\<bar>fl64 x - x\<bar> \<le> pow2 (max (exponent \<bar>x\<bar>) (- 1022) - 52) / 2"
proof (cases "x = 0")
  case True
  then show ?thesis using pow2_pos [of "max (exponent \<bar>x\<bar>) (- 1022) - 52"]
    by (simp add: fl64_def)
next
  case False
  define u where "u = pow2 (max (exponent \<bar>x\<bar>) (- 1022) - 52)"
  define r :: rat where "r = of_int (round_half_even (\<bar>x\<bar> / u))"
  have u: "0 < u" unfolding u_def by (rule pow2_pos)
  have "\<bar>r - \<bar>x\<bar> / u\<bar> \<le> 1 / 2" unfolding r_def by (rule round_half_even_near)
  then have "\<bar>r - \<bar>x\<bar> / u\<bar> * u \<le> 1 / 2 * u"
    using u by (simp add: mult_right_mono)
  moreover have "\<bar>r - \<bar>x\<bar> / u\<bar> * u = \<bar>r * u - \<bar>x\<bar>\<bar>"
    using u by (rule scale_abs)
  moreover have f: "fl64 x = sgn x * r * u"
    using False by (simp only: fl64_def u_def r_def if_False)
  have "\<bar>fl64 x - x\<bar> = \<bar>r * u - \<bar>x\<bar>\<bar>"
  proof (cases "0 < x")
    case True
    then show ?thesis by (simp add: f)
  next
    case n: False
    with False have "x < 0" by simp
    then have "sgn x = - 1" "\<bar>x\<bar> = - x" by simp_all
    then have "fl64 x - x = - (r * u - \<bar>x\<bar>)" by (simp add: f)
    then show ?thesis by (simp only: abs_minus)
  qed
  ultimately show ?thesis by (simp add: u_def)
qed

lemma bit_length_bounds:
  "0 < n \<Longrightarrow> 2 ^ (bit_length n - 1) \<le> n \<and> n < 2 ^ bit_length n"
proof (induction n rule: bit_length.induct)
  case (1 n)
  show ?case
  proof (cases "n div 2 = 0")
    case True
    with "1.prems" have "n = 1" by (cases n) auto
    then show ?thesis by simp
  next
    case False
    then have "0 < n div 2" by simp
    with "1.IH" "1.prems" have ih: "2 ^ (bit_length (n div 2) - 1) \<le> n div 2"
      "n div 2 < 2 ^ bit_length (n div 2)" by simp_all
    have b: "bit_length n = Suc (bit_length (n div 2))"
      using "1.prems" by (simp add: bit_length.simps [of n])
    have p: "0 < bit_length (n div 2)"
      using False by (simp add: bit_length.simps [of "n div 2"])
    then have e: "2 ^ bit_length (n div 2) = 2 * (2::nat) ^ (bit_length (n div 2) - 1)"
      by (cases "bit_length (n div 2)") simp_all
    from ih have "2 * 2 ^ (bit_length (n div 2) - 1) \<le> n" "n < 2 * 2 ^ bit_length (n div 2)"
      by linarith+
    with b e show ?thesis by simp
  qed
qed


lemma bit_length_pos: "0 < n \<Longrightarrow> 0 < bit_length n"
  by (simp add: bit_length.simps [of n])

lemma exponent_bounds:
  assumes "0 < x"
  shows "pow2 (exponent x) \<le> x \<and> x < pow2 (exponent x + 1)"
proof (cases "1 \<le> x")
  case True
  let ?n = "nat \<lfloor>x\<rfloor>"
  let ?k = "bit_length ?n"
  from True have f: "1 \<le> \<lfloor>x\<rfloor>" by simp
  then have n: "0 < ?n" by simp
  from bit_length_bounds [OF n] have b: "2 ^ (?k - 1) \<le> ?n" "?n < 2 ^ ?k" by simp_all
  from bit_length_pos [OF n] have k: "0 < ?k" .
  have e: "exponent x = int ?k - 1" using True by (simp add: exponent_def)
  have nx: "(of_nat ?n :: rat) = of_int \<lfloor>x\<rfloor>" using f by simp
  have lo: "pow2 (exponent x) = 2 ^ (?k - 1)"
    using k by (simp add: e pow2_def nat_diff_distrib)
  have hi: "pow2 (exponent x + 1) = 2 ^ ?k"
    by (simp add: e pow2_def)
  from b(1) have "(of_nat (2 ^ (?k - 1)) :: rat) \<le> of_nat ?n" by (simp only: of_nat_le_iff)
  then have "(2 :: rat) ^ (?k - 1) \<le> of_int \<lfloor>x\<rfloor>" by (simp add: nx)
  also have "\<dots> \<le> x" by (rule of_int_floor_le)
  finally have 1: "pow2 (exponent x) \<le> x" by (simp only: lo)
  from b(2) have "Suc ?n \<le> 2 ^ ?k" by (rule Suc_leI)
  then have "(of_nat (Suc ?n) :: rat) \<le> of_nat (2 ^ ?k)" by (simp only: of_nat_le_iff)
  then have E: "of_int \<lfloor>x\<rfloor> + 1 \<le> (2 :: rat) ^ ?k" using nx by simp
  have F: "x < of_int \<lfloor>x\<rfloor> + 1" by linarith
  from F E have "x < 2 ^ ?k" by (rule less_le_trans)
  then have 2: "x < pow2 (exponent x + 1)" by (simp only: hi)
  from 1 2 show ?thesis ..
next
  case False
  let ?m = "nat (\<lceil>1 / x\<rceil> - 1)"
  let ?k = "bit_length ?m"
  from assms False have x1: "1 < 1 / x" by (simp add: field_simps)
  then have c: "2 \<le> \<lceil>1 / x\<rceil>" by (simp add: le_ceiling_iff)
  then have m: "0 < ?m" by simp
  from bit_length_bounds [OF m] have b: "2 ^ (?k - 1) \<le> ?m" "?m < 2 ^ ?k" by simp_all
  from bit_length_pos [OF m] have k: "0 < ?k" .
  have e: "exponent x = - int ?k" using False by (simp add: exponent_def)
  from c have z: "0 \<le> \<lceil>1 / x\<rceil> - 1" by linarith
  then have "(of_nat ?m :: rat) = of_int (\<lceil>1 / x\<rceil> - 1)" by (rule of_nat_nat)
  then have mx: "(of_nat ?m :: rat) = of_int \<lceil>1 / x\<rceil> - 1" by simp
  have lo: "pow2 (exponent x) = 1 / 2 ^ ?k"
    using k by (simp add: e pow2_def)
  have hi: "pow2 (exponent x + 1) = 1 / 2 ^ (?k - 1)"
  proof (cases "?k = 1")
    case True
    then show ?thesis by (simp add: e pow2_def)
  next
    case False
    with k have "1 < ?k" by simp
    then show ?thesis by (simp add: e pow2_def nat_diff_distrib)
  qed
  from b(2) have "Suc ?m \<le> 2 ^ ?k" by (rule Suc_leI)
  then have "(of_nat (Suc ?m) :: rat) \<le> of_nat (2 ^ ?k)" by (simp only: of_nat_le_iff)
  then have A: "of_int \<lceil>1 / x\<rceil> \<le> (2 :: rat) ^ ?k" using mx by simp
  have B: "1 / x \<le> of_int \<lceil>1 / x\<rceil>" by (rule le_of_int_ceiling)
  from B A have "1 / x \<le> 2 ^ ?k" by (rule order_trans)
  with assms have 1: "1 / 2 ^ ?k \<le> x" by (simp add: field_simps)
  from b(1) have "(of_nat (2 ^ (?k - 1)) :: rat) \<le> of_nat ?m" by (simp only: of_nat_le_iff)
  then have C: "(2 :: rat) ^ (?k - 1) \<le> of_int \<lceil>1 / x\<rceil> - 1" using mx by simp
  have D: "of_int \<lceil>1 / x\<rceil> - 1 < 1 / x" by linarith
  from C D have "2 ^ (?k - 1) < 1 / x" by (rule le_less_trans)
  with assms have 2: "x < 1 / 2 ^ (?k - 1)" by (simp add: field_simps)
  from 1 2 show ?thesis by (simp add: lo hi)
qed

text \<open>The rounding at some rationals, with the doubles that binary64 arithmetic gives.\<close>

lemma fl64_examples:
  "fl64 (1 / 10) = tenth"
  "fl64 (1 / 3) = 6004799503160661 / 18014398509481984"
  "fl64 (- (1 / 3)) = - (6004799503160661 / 18014398509481984)"
  "fl64 (7 / 10) = 3152519739159347 / 4503599627370496"
  "fl64 (2 ^ 53 + 1) = 2 ^ 53"
  "fl64 (2 ^ 53 + 3) = 2 ^ 53 + 4"
  "fl64 (2 - 1 / 2 ^ 54) = 2"
  "fl64 (1 / 2) = 1 / 2"
  "fl64 (3 * tenth) = 1351079888211149 / 4503599627370496"
  by (simp_all add: double_defs)

lemma fl64_subnormal:
  "fl64 (3 / 2 ^ 1075) = 1 / 2 ^ 1073"
  "fl64 (1 / 2 ^ 1075) = 0"
  by (simp_all add: double_defs)

section \<open>Evaluation\<close>

lemmas handler_defs =
  create_task_def apply_task_def assign_task_def complete_task_def pay_task_def
  simulate_c2b_def confirmation_def b2c_payment_def b2c_result_def b2c_timeout_def
  save_task_def save_transaction_def insert_transaction_def pre_save_def validate_transaction_def
  validate_task_def trim_def is_space_def is_separator_def is_digit_def
  createNotification_def try_notify_def notification_types_def new_transaction_def log_call_def
  with_response_def findOne_def cast_ObjectId_def populate_task_def or_default_def
  validatePhoneNumber_def formatPhoneNumber_def startsWith_def success_def double_defs Let_def

lemmas scenario_defs = init_def post_def work_def collect_def pay_out_def settle_def
  accepted_def payout_done_def essay_def essay_done_def collect_1000_def collect_1005_def
  collect_3_def collect_odd_def

lemma run_append: "run s (xs @ ys) = run (run s xs) ys"
  by (induction xs arbitrary: s) simp_all

lemma tasks_posted: "tasks (run init post) = [1 \<mapsto> essay]"
  by (simp add: scenario_defs handler_defs)

lemma tasks_worked: "tasks (run init (post @ work)) = [1 \<mapsto> essay_done]"
  by (simp add: scenario_defs handler_defs)


lemma tasks_settled:
  "tasks (run init (post @ work @ collect @ pay_out @ settle))
     = [1 \<mapsto> essay_done\<lparr>status := T_paid, paymentStatus := P_paid, paidAt := Some 6\<rparr>]"
  by (simp add: scenario_defs handler_defs)

section \<open>What a notification and a save leave alone\<close>

lemma tasks_try_notify [simp]:
  "tasks (try_notify s (createNotification s now u ty rt ru)) = tasks s"
  by (simp add: try_notify_def createNotification_def)

lemma transactions_try_notify [simp]:
  "transactions (try_notify s (createNotification s now u ty rt ru)) = transactions s"
  by (simp add: try_notify_def createNotification_def)

lemma gateway_log_try_notify [simp]:
  "gateway_log (try_notify s (createNotification s now u ty rt ru)) = gateway_log s"
  by (simp add: try_notify_def createNotification_def)

lemma tasks_save_task [simp]: "tasks (save_task s tid t) = (tasks s)(tid \<mapsto> t)"
  by (simp add: save_task_def)

section \<open>Phone normalization\<close>

lemma digit_not_separator: "is_digit c \<Longrightarrow> \<not> is_separator c"
  by (auto simp: is_digit_def is_separator_def is_space_def)

lemma filter_digits: "list_all is_digit s \<Longrightarrow> filter (\<lambda>c. \<not> is_separator c) s = s"
  by (induction s) (simp_all add: digit_not_separator)

lemma subscriber_digits: "is_subscriber sub \<Longrightarrow> list_all is_digit sub"
  by (cases sub) (auto simp: is_digit_def)

lemma regex_canonical: "kenyanPhoneRegex (''254'' @ sub) = is_subscriber sub"
  by (cases sub) simp_all

lemma regex_subscriber:
  "kenyanPhoneRegex q \<Longrightarrow> take 3 q = ''254'' \<and> is_subscriber (drop 3 q)"
  by (cases q rule: kenyanPhoneRegex.cases) simp_all

lemma filter_subscriber:
  "is_subscriber sub \<Longrightarrow> filter (\<lambda>c. \<not> is_separator c) sub = sub"
  by (simp add: filter_digits subscriber_digits)

lemma separator_facts:
  "\<not> is_separator (CHR ''0'')" "\<not> is_separator (CHR ''2'')" "\<not> is_separator (CHR ''5'')"
  "\<not> is_separator (CHR ''4'')" "is_separator (CHR ''+'')"
  by (simp_all add: is_separator_def is_space_def)

lemma format_local:
  "is_subscriber sub \<Longrightarrow> formatPhoneNumber (''0'' @ sub) = Inr (''254'' @ sub)"
  by (simp add: formatPhoneNumber_def filter_subscriber separator_facts startsWith_def)

lemma format_international:
  "is_subscriber sub \<Longrightarrow> formatPhoneNumber (''254'' @ sub) = Inr (''254'' @ sub)"
  by (simp add: formatPhoneNumber_def filter_subscriber separator_facts startsWith_def)

lemma format_plus:
  "is_subscriber sub \<Longrightarrow> formatPhoneNumber (''+254'' @ sub) = Inr (''254'' @ sub)"
  by (simp add: formatPhoneNumber_def filter_subscriber separator_facts startsWith_def)

lemma format_bare:
  assumes "is_subscriber sub"
  shows "formatPhoneNumber sub = Inr (''254'' @ sub)"
proof -
  have f: "filter (\<lambda>c. \<not> is_separator c) sub = sub"
    using assms by (rule filter_subscriber)
  obtain c rest where sub: "sub = c # rest" and c: "c = CHR ''7'' \<or> c = CHR ''1''"
    using assms by (cases sub) auto
  show ?thesis
    unfolding formatPhoneNumber_def f Let_def using c by (auto simp: sub startsWith_def)
qed

text \<open>
  C9. \<^verbatim>\<open>validatePhoneNumber\<close> accepts a subscriber number (nine digits, the first 7 or 1)
  written in the local format (leading 0), the international format (leading 254, with or
  without +) and bare, and maps all four to the one form 254 followed by the subscriber
  number. Whatever it accepts, its result is the normalized form of the input and has
  that canonical form. An input whose normalized form does not match
  \<^verbatim>\<open>/^254[71]\d{8}$/\<close>, or that has no normalized form, is rejected with an error.
\<close>

theorem phone_normalization:
  "(is_subscriber sub \<longrightarrow>
      validatePhoneNumber (''0'' @ sub) = Inr (''254'' @ sub) \<and>
      validatePhoneNumber (''254'' @ sub) = Inr (''254'' @ sub) \<and>
      validatePhoneNumber (''+254'' @ sub) = Inr (''254'' @ sub) \<and>
      validatePhoneNumber sub = Inr (''254'' @ sub)) \<and>
   (validatePhoneNumber phone = Inr q \<longrightarrow>
      formatPhoneNumber phone = Inr q \<and> take 3 q = ''254'' \<and> is_subscriber (drop 3 q)) \<and>
   (formatPhoneNumber phone = Inr q \<and> \<not> kenyanPhoneRegex q \<longrightarrow>
      validatePhoneNumber phone = Inl Invalid_Kenyan_phone_number) \<and>
   (formatPhoneNumber phone = Inl e \<longrightarrow> validatePhoneNumber phone = Inl e)"
proof (intro conjI impI)
  assume s: "is_subscriber sub"
  then have r: "kenyanPhoneRegex (''254'' @ sub)" by (simp only: regex_canonical)
  show "validatePhoneNumber (''0'' @ sub) = Inr (''254'' @ sub)"
    unfolding validatePhoneNumber_def format_local [OF s] using r by simp
  show "validatePhoneNumber (''254'' @ sub) = Inr (''254'' @ sub)"
    unfolding validatePhoneNumber_def format_international [OF s] using r by simp
  show "validatePhoneNumber (''+254'' @ sub) = Inr (''254'' @ sub)"
    unfolding validatePhoneNumber_def format_plus [OF s] using r by simp
  show "validatePhoneNumber sub = Inr (''254'' @ sub)"
    unfolding validatePhoneNumber_def format_bare [OF s] using r by simp
next
  assume v: "validatePhoneNumber phone = Inr q"
  then have f: "formatPhoneNumber phone = Inr q" and r: "kenyanPhoneRegex q"
    by (auto simp: validatePhoneNumber_def split: sum.splits if_splits)
  show "formatPhoneNumber phone = Inr q" by (rule f)
  show "take 3 q = ''254''" using regex_subscriber [OF r] by simp
  show "is_subscriber (drop 3 q)" using regex_subscriber [OF r] by simp
next
  assume "formatPhoneNumber phone = Inr q \<and> \<not> kenyanPhoneRegex q"
  then show "validatePhoneNumber phone = Inl Invalid_Kenyan_phone_number"
    by (simp add: validatePhoneNumber_def)
next
  assume "formatPhoneNumber phone = Inl e"
  then show "validatePhoneNumber phone = Inl e"
    by (simp add: validatePhoneNumber_def)
qed

text \<open>
  C9, at the subscriber number 712345678 in its four formats, at 0812345678 (normalized
  to 254812345678, which is no permitted prefix) and at 812345678 (no format).
\<close>

theorem phone_normalization_witness:
  "validatePhoneNumber ''0712345678'' = Inr ''254712345678'' \<and>
   validatePhoneNumber ''254712345678'' = Inr ''254712345678'' \<and>
   validatePhoneNumber ''+254712345678'' = Inr ''254712345678'' \<and>
   validatePhoneNumber ''712345678'' = Inr ''254712345678'' \<and>
   validatePhoneNumber ''0812345678'' = Inl Invalid_Kenyan_phone_number \<and>
   validatePhoneNumber ''812345678'' = Inl Invalid_phone_number_format"
proof -
  have s: "is_subscriber ''712345678''"
    by (simp add: is_digit_def)
  have f: "formatPhoneNumber ''0812345678'' = Inr ''254812345678'' \<and>
           \<not> kenyanPhoneRegex ''254812345678''"
    by (simp add: formatPhoneNumber_def is_separator_def is_space_def startsWith_def)
  have g: "formatPhoneNumber ''812345678'' = Inl Invalid_phone_number_format"
    by (simp add: formatPhoneNumber_def is_separator_def is_space_def startsWith_def)
  show ?thesis
    using phone_normalization [of "''712345678''" "''0812345678''" "''254812345678''"
        Invalid_phone_number_format]
      phone_normalization [of "''712345678''" "''812345678''" "''254812345678''"
        Invalid_phone_number_format]
      s f g by simp
qed

section \<open>The task lifecycle\<close>

text \<open>
  C8. When the caller already appears in the applicants of a task, \<^verbatim>\<open>apply\<close> answers 400
  (the Conflict of a guard that fails) and leaves the store as it was, so that the
  applicants list of the task is as long as before; when the caller is not the owner the
  message is that of the second application.
\<close>

theorem apply_twice_rejected:
  assumes "tasks s taskId = Some t" and "userId \<in> user ` set (applicants t)"
  shows "fst (apply_task s now taskId userId) = s \<and>
         fst (snd (apply_task s now taskId userId)) = 400 \<and>
         map_option (\<lambda>t'. length (applicants t')) (tasks (fst (apply_task s now taskId userId)) taskId)
           = Some (length (applicants t)) \<and>
         (postedBy t \<noteq> userId \<longrightarrow>
            snd (apply_task s now taskId userId) = (400, ''You already applied to this task''))"
proof -
  from assms(2) have "list_ex (\<lambda>app. user app = userId) (applicants t)"
    by (auto simp: list_ex_iff)
  with assms(1) show ?thesis
    by (simp add: apply_task_def)
qed

text \<open>
  C8, in the store where worker 20 has applied to the essay at time 2 and applies again
  at time 3.
\<close>

theorem apply_twice_rejected_witness:
  "tasks (run init (post @ [(2, Apply_task 1 20)])) 1
     = Some (essay\<lparr>applicants := [\<lparr>user = 20, appliedAt = 2\<rparr>]\<rparr>) \<and>
   apply_task (run init (post @ [(2, Apply_task 1 20)])) 3 1 20
     = (run init (post @ [(2, Apply_task 1 20)]), (400, ''You already applied to this task'')) \<and>
   map_option (\<lambda>t'. length (applicants t'))
     (tasks (fst (apply_task (run init (post @ [(2, Apply_task 1 20)])) 3 1 20)) 1) = Some 1"
proof -
  have t: "tasks (run init (post @ [(2, Apply_task 1 20)])) 1
             = Some (essay\<lparr>applicants := [\<lparr>user = 20, appliedAt = 2\<rparr>]\<rparr>)"
    by (simp add: scenario_defs handler_defs)
  have u: "20 \<in> user ` set (applicants (essay\<lparr>applicants := [\<lparr>user = 20, appliedAt = 2\<rparr>]\<rparr>))"
    by simp
  have o: "postedBy (essay\<lparr>applicants := [\<lparr>user = 20, appliedAt = 2\<rparr>]\<rparr>) \<noteq> 20"
    by (simp add: essay_def)
  show ?thesis
    using apply_twice_rejected [OF t u, of 3] t o by (simp add: prod_eq_iff)
qed

text \<open>
  C10. \<^verbatim>\<open>complete\<close> looks at the assignee only: whenever the caller is the assignee of the
  task it answers 200, whatever the status of the task, and the task it leaves has the
  status completed and the time of the call as \<open>completedAt\<close>, all other fields as before
  (so \<open>paidAt\<close> too, which may then be earlier).
\<close>

theorem complete_ignores_status:
  assumes "tasks s taskId = Some t" and "assignedTo t = Some userId"
  shows "snd (complete_task s now taskId userId) = (200, ''Task marked as completed'') \<and>
         tasks (fst (complete_task s now taskId userId)) taskId
           = Some (t\<lparr>status := T_completed, completedAt := Some now\<rparr>)"
  using assms by (simp add: complete_task_def Let_def)

text \<open>
  C10, for the essay once its payout has been reported (status paid, paid at time 6),
  which worker 20 completes again at time 9: the status is completed again and
  \<open>completedAt\<close> is later than \<open>paidAt\<close>.
\<close>

theorem complete_ignores_status_witness:
  "tasks (run init (post @ work @ collect @ pay_out @ settle)) 1
     = Some (essay_done\<lparr>status := T_paid, paymentStatus := P_paid, paidAt := Some 6\<rparr>) \<and>
   assignedTo (essay_done\<lparr>status := T_paid, paymentStatus := P_paid, paidAt := Some 6\<rparr>) = Some 20 \<and>
   snd (complete_task (run init (post @ work @ collect @ pay_out @ settle)) 9 1 20)
     = (200, ''Task marked as completed'') \<and>
   tasks (fst (complete_task (run init (post @ work @ collect @ pay_out @ settle)) 9 1 20)) 1
     = Some (essay_done\<lparr>status := T_completed, paymentStatus := P_paid, paidAt := Some 6,
                         completedAt := Some 9\<rparr>)"
proof -
  have t: "tasks (run init (post @ work @ collect @ pay_out @ settle)) 1
     = Some (essay_done\<lparr>status := T_paid, paymentStatus := P_paid, paidAt := Some 6\<rparr>)"
    by (simp add: tasks_settled)
  have a: "assignedTo (essay_done\<lparr>status := T_paid, paymentStatus := P_paid, paidAt := Some 6\<rparr>)
             = Some 20"
    by (simp add: essay_done_def)
  show ?thesis using complete_ignores_status [OF t a, of 9] t a by (simp add: essay_done_def)
qed

text \<open>
  C3 fails on the code. The essay has no applicant, and its owner assigns it to user 99,
  who has not applied: the answer is 200 and not a Conflict, and the task has changed, to
  the assignee 99 and the status in-progress.
\<close>

theorem assign_non_applicant:
  "map_option applicants (tasks (run init post) 1) = Some [] \<and>
   snd (assign_task (run init post) 3 1 10 (Id 99)) = (200, ''Task assigned successfully'') \<and>
   map_option assignedTo (tasks (fst (assign_task (run init post) 3 1 10 (Id 99))) 1)
     = Some (Some 99) \<and>
   map_option status (tasks (fst (assign_task (run init post) 3 1 10 (Id 99))) 1)
     = Some T_in_progress \<and>
   map_option applicants (tasks (fst (assign_task (run init post) 3 1 10 (Id 99))) 1) = Some []"
  by (simp add: tasks_posted assign_task_def essay_def Let_def)

section \<open>The callbacks of the gateway\<close>

text \<open>
  C4 as amended. The collection-confirmation, payout-result and payout-timeout callbacks
  answer with the success envelope for every body and every store, also when the body
  lacks what they read or no record matches. The collection-validation callback answers
  C2B00011 when its bill reference is missing or leaves no task identifier, C2B00014 when
  the identifier cannot be cast (the query throws), C2B00012 when no task has the
  identifier, C2B00013 when the amount of the callback is not the budget of the task,
  and the success envelope in the one case that is left.
\<close>

theorem callbacks_acknowledge:
  "snd (confirmation s now BillRefNumber TransID) = success \<and>
   snd (b2c_result s now body) = success \<and>
   snd (b2c_timeout s now body) = success \<and>
   (validation s BillRefNumber TransAmount = success \<longrightarrow>
      (\<exists>tid t. bill_task BillRefNumber = Some tid \<and> tasks s tid = Some t \<and>
               TransAmount = Some (budget t))) \<and>
   (validation s BillRefNumber TransAmount \<noteq> success \<longrightarrow>
      fst (validation s BillRefNumber TransAmount)
        \<in> {Str ''C2B00011'', Str ''C2B00012'', Str ''C2B00013'', Str ''C2B00014''}) \<and>
   (bill_reference BillRefNumber = [] \<longrightarrow>
      validation s BillRefNumber TransAmount = (Str ''C2B00011'', ''Invalid Bill Reference'')) \<and>
   (bill_reference BillRefNumber \<noteq> [] \<and> cast_ObjectId (bill_reference BillRefNumber) = None \<longrightarrow>
      validation s BillRefNumber TransAmount = (Str ''C2B00014'', ''Validation failed'')) \<and>
   (bill_reference BillRefNumber \<noteq> [] \<and> cast_ObjectId (bill_reference BillRefNumber) = Some i \<and>
    tasks s i = None \<longrightarrow>
      validation s BillRefNumber TransAmount = (Str ''C2B00012'', ''Task not found'')) \<and>
   (bill_reference BillRefNumber \<noteq> [] \<and> cast_ObjectId (bill_reference BillRefNumber) = Some i \<and>
    tasks s i = Some t \<and> TransAmount \<noteq> Some (budget t) \<longrightarrow>
      validation s BillRefNumber TransAmount
        = (Str ''C2B00013'', ''Amount does not match task budget'')) \<and>
   (bill_reference BillRefNumber \<noteq> [] \<and> cast_ObjectId (bill_reference BillRefNumber) = Some i \<and>
    tasks s i = Some t \<and> TransAmount = Some (budget t) \<longrightarrow>
      validation s BillRefNumber TransAmount = success)"
proof (intro conjI impI)
  show "snd (confirmation s now BillRefNumber TransID) = success"
    by (simp add: confirmation_def Let_def split: option.splits)
  show "snd (b2c_result s now body) = success"
    by (simp add: b2c_result_def Let_def split: option.splits)
  show "snd (b2c_timeout s now body) = success"
    by (simp add: b2c_timeout_def Let_def split: option.splits)
next
  assume "validation s BillRefNumber TransAmount = success"
  then show "\<exists>tid t. bill_task BillRefNumber = Some tid \<and> tasks s tid = Some t \<and>
               TransAmount = Some (budget t)"
    by (auto simp: validation_def bill_task_def success_def split: option.splits if_splits)
next
  assume "validation s BillRefNumber TransAmount \<noteq> success"
  then show "fst (validation s BillRefNumber TransAmount)
        \<in> {Str ''C2B00011'', Str ''C2B00012'', Str ''C2B00013'', Str ''C2B00014''}"
    by (auto simp: validation_def split: option.splits if_splits)
next
  assume "bill_reference BillRefNumber = []"
  then show "validation s BillRefNumber TransAmount = (Str ''C2B00011'', ''Invalid Bill Reference'')"
    by (cases BillRefNumber) (simp_all add: validation_def bill_reference_def)
next
  assume "bill_reference BillRefNumber \<noteq> [] \<and> cast_ObjectId (bill_reference BillRefNumber) = None"
  then show "validation s BillRefNumber TransAmount = (Str ''C2B00014'', ''Validation failed'')"
    by (cases BillRefNumber) (auto simp: validation_def bill_reference_def)
next
  assume "bill_reference BillRefNumber \<noteq> [] \<and>
    cast_ObjectId (bill_reference BillRefNumber) = Some i \<and> tasks s i = None"
  then show "validation s BillRefNumber TransAmount = (Str ''C2B00012'', ''Task not found'')"
    by (cases BillRefNumber) (auto simp: validation_def bill_reference_def)
next
  assume "bill_reference BillRefNumber \<noteq> [] \<and>
    cast_ObjectId (bill_reference BillRefNumber) = Some i \<and>
    tasks s i = Some t \<and> TransAmount \<noteq> Some (budget t)"
  then show "validation s BillRefNumber TransAmount
        = (Str ''C2B00013'', ''Amount does not match task budget'')"
    by (cases BillRefNumber) (auto simp: validation_def bill_reference_def)
next
  assume "bill_reference BillRefNumber \<noteq> [] \<and>
    cast_ObjectId (bill_reference BillRefNumber) = Some i \<and>
    tasks s i = Some t \<and> TransAmount = Some (budget t)"
  then show "validation s BillRefNumber TransAmount = success"
    by (cases BillRefNumber) (auto simp: validation_def bill_reference_def)
qed

text \<open>
  C4 as amended, for callbacks on the store that holds the essay: a confirmation for it,
  payout callbacks with no \<^verbatim>\<open>Result\<close>, and validations with the budget of the essay, with
  no bill reference, with an identifier that is none, for a task that is not there and
  with another amount.
\<close>

theorem callbacks_acknowledge_witness:
  "snd (confirmation (run init post) 6 (Some ''TASK_1'') None) = success \<and>
   snd (b2c_result (run init post) 6 None) = success \<and>
   snd (b2c_timeout (run init post) 6 None) = success \<and>
   validation (run init post) (Some ''TASK_1'') (Some 500) = success \<and>
   validation (run init post) None (Some 500) = (Str ''C2B00011'', ''Invalid Bill Reference'') \<and>
   validation (run init post) (Some ''TASK_x1'') (Some 500) = (Str ''C2B00014'', ''Validation failed'') \<and>
   validation (run init post) (Some ''TASK_7'') (Some 500) = (Str ''C2B00012'', ''Task not found'') \<and>
   validation (run init post) (Some ''TASK_1'') (Some 400)
     = (Str ''C2B00013'', ''Amount does not match task budget'')"
proof -
  have r: "bill_reference None = []" "bill_reference (Some ''TASK_1'') = ''1''"
    "bill_reference (Some ''TASK_x1'') = ''x1''" "bill_reference (Some ''TASK_7'') = ''7''"
    by (simp_all add: bill_reference_def startsWith_def)
  have c: "cast_ObjectId ''1'' = Some 1" "cast_ObjectId ''x1'' = None" "cast_ObjectId ''7'' = Some 7"
    by (simp_all add: cast_ObjectId_def is_digit_def)
  have t: "tasks (run init post) 1 = Some essay" "tasks (run init post) 7 = None"
    by (simp_all add: tasks_posted)
  have b: "budget essay = 500" by (simp add: essay_def)
  have v: "validation (run init post) (Some ''TASK_1'') (Some 500) = success"
    using callbacks_acknowledge [of "run init post" 6 "Some ''TASK_1''" None None "Some 500" 1 essay]
      r c t b by simp
  then have "\<exists>tid t. bill_task (Some ''TASK_1'') = Some tid \<and> tasks (run init post) tid = Some t \<and>
      Some 500 = Some (budget t)"
    using callbacks_acknowledge [of "run init post" 6 "Some ''TASK_1''" None None "Some 500" 1 essay]
    by blast
  have v11: "validation (run init post) None (Some 500) = (Str ''C2B00011'', ''Invalid Bill Reference'')"
    using callbacks_acknowledge [of "run init post" 6 None None None "Some 500" 1 essay] r by simp
  have v14: "validation (run init post) (Some ''TASK_x1'') (Some 500)
      = (Str ''C2B00014'', ''Validation failed'')"
    using callbacks_acknowledge [of "run init post" 6 "Some ''TASK_x1''" None None "Some 500" 1 essay]
      r c by simp
  then have "validation (run init post) (Some ''TASK_x1'') (Some 500) \<noteq> success"
    by (simp add: success_def)
  then have "fst (validation (run init post) (Some ''TASK_x1'') (Some 500))
      \<in> {Str ''C2B00011'', Str ''C2B00012'', Str ''C2B00013'', Str ''C2B00014''}"
    using callbacks_acknowledge [of "run init post" 6 "Some ''TASK_x1''" None None "Some 500" 1 essay]
    by blast
  have v12: "validation (run init post) (Some ''TASK_7'') (Some 500) = (Str ''C2B00012'', ''Task not found'')"
    using callbacks_acknowledge [of "run init post" 6 "Some ''TASK_7''" None None "Some 500" 7 essay]
      r c t by simp
  have v13: "validation (run init post) (Some ''TASK_1'') (Some 400)
      = (Str ''C2B00013'', ''Amount does not match task budget'')"
    using callbacks_acknowledge [of "run init post" 6 "Some ''TASK_1''" None None "Some 400" 1 essay]
      r c t b by simp
  show ?thesis
    using callbacks_acknowledge [of "run init post" 6 "Some ''TASK_1''" None None "Some 500" 1 essay]
      v v11 v14 v12 v13 by simp
qed

text \<open>
  C4 as stated fails at the collection-validation callback: for the essay with an amount
  that is not its budget, and for a body with no bill reference, the answer is a
  rejection code and not the success envelope.
\<close>

theorem validation_rejects_counterexample:
  "validation (run init post) (Some ''TASK_1'') (Some 400)
     = (Str ''C2B00013'', ''Amount does not match task budget'') \<and>
   validation init None None = (Str ''C2B00011'', ''Invalid Bill Reference'')"
  by (simp add: validation_def tasks_posted essay_def cast_ObjectId_def is_digit_def
      startsWith_def)

section \<open>The payout\<close>






text \<open>
  C2 fails on the code. The payout of the essay is pending under the conversation
  identifiers c2 and o2, and four notifications exist. The payout-result callback for
  them with the result code 0 makes the fifth, and the same callback once more makes a
  sixth; the payout is completed after each. The second delivery also writes the status
  of the task again: when the worker has completed the task in between, it is paid
  again afterwards.
\<close>

theorem payout_result_redelivered:
  "length (notifications (run init (post @ work @ collect @ pay_out))) = 4 \<and>
   length (notifications (run init (post @ work @ collect @ pay_out @ settle))) = 5 \<and>
   length (notifications (run init (post @ work @ collect @ pay_out @ settle @ settle))) = 6 \<and>
   map tx_status (transactions (run init (post @ work @ collect @ pay_out @ settle)))
     = [COMPLETED, COMPLETED] \<and>
   map tx_status (transactions (run init (post @ work @ collect @ pay_out @ settle @ settle)))
     = [COMPLETED, COMPLETED] \<and>
   map_option status
     (tasks (run init (post @ work @ collect @ pay_out @ settle @ [(9, Complete_task 1 20)])) 1)
     = Some T_completed \<and>
   map_option status
     (tasks (run init (post @ work @ collect @ pay_out @ settle @ [(9, Complete_task 1 20)] @
               settle)) 1)
     = Some T_paid"
  by (simp add: scenario_defs handler_defs)

text \<open>
  C6 as stated fails. After the owner has posted the essay with the budget 500, worker 20
  has applied, has been assigned and has completed it, \<^verbatim>\<open>pay\<close> by the owner leaves the
  status completed with the payment status paid, and no transaction at all; and the
  payout-initiation handler, without a collection, answers 400 and writes no transaction
  either.
\<close>

theorem lifecycle_pay_counterexample:
  "map_option status (tasks (run init (post @ work @ [(5, Pay_task 1 10)])) 1) = Some T_completed \<and>
   map_option paymentStatus (tasks (run init (post @ work @ [(5, Pay_task 1 10)])) 1) = Some P_paid \<and>
   transactions (run init (post @ work @ [(5, Pay_task 1 10)])) = [] \<and>
   snd (b2c_payment (run init (post @ work)) 10 (Some 1) ''0722000000'' (accepted ''c2'' ''o2''))
     = (400, ''No confirmed payment found for this task'') \<and>
   transactions (run init (post @ work @ pay_out)) = []"
  by (simp add: scenario_defs handler_defs)

text \<open>
  C6 as amended. The owner posts the essay with the budget 500, worker 20 applies, is
  assigned and completes it; the owner collects 500 for it and the gateway confirms the
  collection; the owner initiates the payout and the gateway reports it with the result
  code 0. Then the task has the status paid and the payment status paid, and the store
  has exactly one payout, for this task, completed, with the amount 500, the commission
  50 and the net amount 450.
\<close>

theorem lifecycle_with_payout:
  "map_option status (tasks (run init (post @ work @ collect @ pay_out @ settle)) 1) = Some T_paid \<and>
   map_option paymentStatus (tasks (run init (post @ work @ collect @ pay_out @ settle)) 1)
     = Some P_paid \<and>
   map (\<lambda>x. (amount x, commission x, netAmount x, tx_status x, tx_task x))
     (filter (\<lambda>x. transactionType x = B2C)
        (transactions (run init (post @ work @ collect @ pay_out @ settle))))
     = [(500, 50, Some 450, COMPLETED, Some 1)]"
  by (simp add: scenario_defs handler_defs)

section \<open>Payment status and status\<close>

text \<open>
  C1 fails on the code. The owner posts the essay and collects 500 for it; the
  confirmation of the collection makes the payment status of the essay paid while its
  status is open. And when the owner has paid the completed essay with \<^verbatim>\<open>pay\<close> and
  assigns it again, its status is in-progress while its payment status is paid.
\<close>

theorem paid_while_open:
  "map_option status (tasks (run init (post @ collect)) 1) = Some T_open \<and>
   map_option paymentStatus (tasks (run init (post @ collect)) 1) = Some P_paid \<and>
   map_option status
     (tasks (run init (post @ work @ [(5, Pay_task 1 10), (6, Assign_task 1 10 (Id 20))])) 1)
     = Some T_in_progress \<and>
   map_option paymentStatus
     (tasks (run init (post @ work @ [(5, Pay_task 1 10), (6, Assign_task 1 10 (Id 20))])) 1)
     = Some P_paid"
  by (simp add: scenario_defs handler_defs)

section \<open>The amounts of a payout\<close>

lemma pre_save_amounts:
  "payout_amounts x \<Longrightarrow> same_amounts x (pre_save x)"
  by (auto simp: payout_amounts_def same_amounts_def pre_save_def)

lemma kept_refl [simp]: "amounts_kept xs xs"
  by (simp add: amounts_kept_def same_amounts_def)

lemma kept_append [simp]: "amounts_kept xs (xs @ ys)"
  by (simp add: amounts_kept_def same_amounts_def nth_append)

lemma kept_update:
  assumes "same_amounts (xs ! i) t"
  shows "amounts_kept xs (xs[i := pre_save t])"
proof -
  { fix j assume j: "j < length xs" and p: "payout_amounts (xs ! j)"
    have "same_amounts (xs ! j) (xs[i := pre_save t] ! j)"
    proof (cases "j = i")
      case True
      with p assms have "payout_amounts t"
        by (auto simp: payout_amounts_def same_amounts_def)
      then have "same_amounts t (pre_save t)" by (rule pre_save_amounts)
      with assms True j show ?thesis by (auto simp: same_amounts_def)
    next
      case False
      then show ?thesis by (simp add: same_amounts_def)
    qed }
  then show ?thesis by (simp add: amounts_kept_def)
qed

lemma transactions_save_task [simp]: "transactions (save_task s tid t) = transactions s"
  by (simp add: save_task_def)

lemma transactions_log_call [simp]: "transactions (log_call s c) = transactions s"
  by (simp add: log_call_def)

lemma transactions_save_transaction [simp]:
  "transactions (save_transaction s i t) = (transactions s)[i := pre_save t]"
  by (simp add: save_transaction_def)

lemma insert_transactionD:
  "insert_transaction s t = Some (s1, i) \<Longrightarrow>
   transactions s1 = transactions s @ [pre_save t] \<and> i = length (transactions s) \<and>
   gateway_log s1 = gateway_log s \<and> validate_transaction t"
  by (auto simp: insert_transaction_def split: if_splits)

lemma kept_create: "transactions (fst (create_task s u a b c)) = transactions s"
  by (simp add: create_task_def Let_def)

lemma kept_apply: "transactions (fst (apply_task s now tid u)) = transactions s"
  by (simp add: apply_task_def Let_def split: option.splits)

lemma kept_assign: "transactions (fst (assign_task s now tid u a)) = transactions s"
  by (simp add: assign_task_def Let_def split: option.splits id_param.splits)

lemma kept_complete: "transactions (fst (complete_task s now tid u)) = transactions s"
  by (simp add: complete_task_def Let_def split: option.splits)

lemma kept_pay: "transactions (fst (pay_task s now tid u)) = transactions s"
  by (simp add: pay_task_def Let_def split: option.splits)

lemma kept_simulate_c2b:
  "amounts_kept (transactions s) (transactions (fst (simulate_c2b s u tid ph a gw)))"
  by (auto simp: simulate_c2b_def Let_def split: option.splits sum.splits
      dest!: insert_transactionD)

lemma kept_b2c_payment:
  "amounts_kept (transactions s) (transactions (fst (b2c_payment s u tid ph gw)))"
  by (auto simp: b2c_payment_def Let_def split: option.splits sum.splits
      dest!: insert_transactionD)

lemma kept_confirmation:
  "amounts_kept (transactions s) (transactions (fst (confirmation s now b tr)))"
  by (auto simp: confirmation_def Let_def same_amounts_def split: option.splits
      intro!: kept_update)

lemma kept_b2c_result:
  "amounts_kept (transactions s) (transactions (fst (b2c_result s now body)))"
  by (auto simp: b2c_result_def Let_def same_amounts_def split: option.splits
      intro!: kept_update)

lemma kept_b2c_timeout:
  "amounts_kept (transactions s) (transactions (fst (b2c_timeout s now body)))"
  by (auto simp: b2c_timeout_def Let_def same_amounts_def split: option.splits
      intro!: kept_update)

lemma kept_exec: "amounts_kept (transactions s) (transactions (exec s now x))"
  by (cases x)
    (simp_all add: kept_create kept_apply kept_assign kept_complete kept_pay kept_simulate_c2b
      kept_b2c_payment kept_confirmation kept_b2c_result kept_b2c_timeout)

lemma gateway_log_save_transaction [simp]:
  "gateway_log (save_transaction s i t) = gateway_log s"
  by (simp add: save_transaction_def)

lemma gateway_log_log_call [simp]: "gateway_log (log_call s c) = gateway_log s @ [c]"
  by (simp add: log_call_def)

lemma list_ex_takeWhile:
  "list_ex P xs \<Longrightarrow>
   length (takeWhile (\<lambda>x. \<not> P x) xs) < length xs \<and> P (xs ! length (takeWhile (\<lambda>x. \<not> P x) xs))"
  by (induction xs) auto

lemma findOne_nth:
  assumes "findOne P xs = Some i"
  shows "i < length xs \<and> P (xs ! i)"
  using assms list_ex_takeWhile [of P xs] by (auto simp: findOne_def split: if_splits)

lemma new_payout:
  assumes "f = fl64 (a * tenth)" and "n = fl64 (a - f)"
  shows "payout_amounts (pre_save (new_transaction B2C a f (Some n) ph u w t))"
    and "commission (pre_save (new_transaction B2C a f (Some n) ph u w t)) = f"
    and "netAmount (pre_save (new_transaction B2C a f (Some n) ph u w t)) = Some n"
    and "transactionType (pre_save (new_transaction B2C a f (Some n) ph u w t)) = B2C"
    and "tx_task (pre_save (new_transaction B2C a f (Some n) ph u w t)) = t"
    and "amount (pre_save (new_transaction B2C a f (Some n) ph u w t)) = a"
    and "phoneNumber (pre_save (new_transaction B2C a f (Some n) ph u w t)) = ph"
  using assms by (simp_all add: payout_amounts_def pre_save_def new_transaction_def)

lemma new_payout_response:
  assumes "f = fl64 (a * tenth)" and "n = fl64 (a - f)"
  shows "payout_amounts
           (pre_save (with_response (pre_save (new_transaction B2C a f (Some n) ph u w t)) r))"
    and "commission
           (pre_save (with_response (pre_save (new_transaction B2C a f (Some n) ph u w t)) r)) = f"
    and "netAmount
           (pre_save (with_response (pre_save (new_transaction B2C a f (Some n) ph u w t)) r))
           = Some n"
    and "transactionType
           (pre_save (with_response (pre_save (new_transaction B2C a f (Some n) ph u w t)) r)) = B2C"
    and "tx_task
           (pre_save (with_response (pre_save (new_transaction B2C a f (Some n) ph u w t)) r)) = t"
    and "amount
           (pre_save (with_response (pre_save (new_transaction B2C a f (Some n) ph u w t)) r)) = a"
    and "phoneNumber
           (pre_save (with_response (pre_save (new_transaction B2C a f (Some n) ph u w t)) r)) = ph"
  using assms
  by (simp_all add: payout_amounts_def pre_save_def with_response_def new_transaction_def)

lemma b2c_payment_effect:
  "transactions (fst (b2c_payment s u taskId ph gw)) = transactions s \<or>
   (\<exists>tid t w c q.
      taskId = Some tid \<and> tasks s tid = Some t \<and> assignedTo t = Some w \<and>
      findOne (\<lambda>x. tx_task x = Some tid \<and> transactionType x = C2B \<and> tx_status x = COMPLETED)
        (transactions s) = Some c \<and>
      validatePhoneNumber ph = Inr q \<and>
      ((transactions (fst (b2c_payment s u taskId ph gw)) = transactions s @
          [pre_save (new_transaction B2C (amount (transactions s ! c))
             (fl64 (amount (transactions s ! c) * tenth))
             (Some (fl64 (amount (transactions s ! c) - fl64 (amount (transactions s ! c) * tenth))))
             q (Some u) (Some w) (Some tid))] \<and>
        (gateway_log (fst (b2c_payment s u taskId ph gw)) = gateway_log s @ [AccessToken] \<or>
         gateway_log (fst (b2c_payment s u taskId ph gw)) = gateway_log s @ [AccessToken,
           B2C_paymentrequest
             (round (fl64 (amount (transactions s ! c) - fl64 (amount (transactions s ! c) * tenth))))
             q]))
       \<or>
       (\<exists>r. transactions (fst (b2c_payment s u taskId ph gw)) = transactions s @
          [pre_save (with_response (pre_save (new_transaction B2C (amount (transactions s ! c))
             (fl64 (amount (transactions s ! c) * tenth))
             (Some (fl64 (amount (transactions s ! c) - fl64 (amount (transactions s ! c) * tenth))))
             q (Some u) (Some w) (Some tid))) r)] \<and>
         gateway_log (fst (b2c_payment s u taskId ph gw)) = gateway_log s @ [AccessToken,
           B2C_paymentrequest
             (round (fl64 (amount (transactions s ! c) - fl64 (amount (transactions s ! c) * tenth))))
             q])))"
  by (simp add: b2c_payment_def insert_transaction_def Let_def split: option.splits sum.splits)
    blast

lemma b2c_payment_creates:
  assumes "transactions (fst (b2c_payment s u taskId ph gw)) \<noteq> transactions s"
  shows "\<exists>x c. transactions (fst (b2c_payment s u taskId ph gw)) = transactions s @ [x] \<and>
           transactionType x = B2C \<and> tx_task x = taskId \<and>
           c < length (transactions s) \<and> transactionType (transactions s ! c) = C2B \<and>
           tx_task (transactions s ! c) = taskId \<and> tx_status (transactions s ! c) = COMPLETED \<and>
           amount x = amount (transactions s ! c) \<and> payout_amounts x \<and>
           (gateway_log (fst (b2c_payment s u taskId ph gw)) = gateway_log s @ [AccessToken] \<or>
            gateway_log (fst (b2c_payment s u taskId ph gw))
              = gateway_log s @ [AccessToken,
                  B2C_paymentrequest (round (fl64 (amount x - commission x))) (phoneNumber x)])"
proof -
  from b2c_payment_effect [of s u taskId ph gw] assms
  obtain tid t w c q where tid: "taskId = Some tid"
    and c: "findOne (\<lambda>x. tx_task x = Some tid \<and> transactionType x = C2B \<and>
              tx_status x = COMPLETED) (transactions s) = Some c"
    and eff: "(transactions (fst (b2c_payment s u taskId ph gw)) = transactions s @
          [pre_save (new_transaction B2C (amount (transactions s ! c))
             (fl64 (amount (transactions s ! c) * tenth))
             (Some (fl64 (amount (transactions s ! c) - fl64 (amount (transactions s ! c) * tenth))))
             q (Some u) (Some w) (Some tid))] \<and>
        (gateway_log (fst (b2c_payment s u taskId ph gw)) = gateway_log s @ [AccessToken] \<or>
         gateway_log (fst (b2c_payment s u taskId ph gw)) = gateway_log s @ [AccessToken,
           B2C_paymentrequest
             (round (fl64 (amount (transactions s ! c) - fl64 (amount (transactions s ! c) * tenth))))
             q]))
       \<or>
       (\<exists>r. transactions (fst (b2c_payment s u taskId ph gw)) = transactions s @
          [pre_save (with_response (pre_save (new_transaction B2C (amount (transactions s ! c))
             (fl64 (amount (transactions s ! c) * tenth))
             (Some (fl64 (amount (transactions s ! c) - fl64 (amount (transactions s ! c) * tenth))))
             q (Some u) (Some w) (Some tid))) r)] \<and>
         gateway_log (fst (b2c_payment s u taskId ph gw)) = gateway_log s @ [AccessToken,
           B2C_paymentrequest
             (round (fl64 (amount (transactions s ! c) - fl64 (amount (transactions s ! c) * tenth))))
             q])"
    by blast
  from findOne_nth [OF c] have cc: "c < length (transactions s)"
    "transactionType (transactions s ! c) = C2B" "tx_task (transactions s ! c) = taskId"
    "tx_status (transactions s ! c) = COMPLETED"
    by (simp_all add: tid)
  let ?a = "amount (transactions s ! c)"
  let ?f = "fl64 (?a * tenth)"
  let ?n = "pre_save (new_transaction B2C ?a ?f (Some (fl64 (?a - ?f))) q (Some u) (Some w) (Some tid))"
  note n = new_payout [OF refl refl, of ?a q "Some u" "Some w" "Some tid"]
  from eff show ?thesis
  proof (elim disjE exE conjE)
    assume "transactions (fst (b2c_payment s u taskId ph gw)) = transactions s @ [?n]"
      and "gateway_log (fst (b2c_payment s u taskId ph gw)) = gateway_log s @ [AccessToken]"
    with cc show ?thesis unfolding tid
      by (intro exI [of _ ?n] exI [of _ c]) (simp only: n simp_thms)
  next
    assume "transactions (fst (b2c_payment s u taskId ph gw)) = transactions s @ [?n]"
      and "gateway_log (fst (b2c_payment s u taskId ph gw)) = gateway_log s @ [AccessToken,
           B2C_paymentrequest (round (fl64 (?a - ?f))) q]"
    with cc show ?thesis unfolding tid
      by (intro exI [of _ ?n] exI [of _ c]) (simp only: n simp_thms)
  next
    fix r
    let ?m = "pre_save (with_response ?n r)"
    note m = new_payout_response [OF refl refl, of ?a q "Some u" "Some w" "Some tid" r]
    assume "transactions (fst (b2c_payment s u taskId ph gw)) = transactions s @ [?m]"
      and "gateway_log (fst (b2c_payment s u taskId ph gw)) = gateway_log s @ [AccessToken,
           B2C_paymentrequest (round (fl64 (?a - ?f))) q]"
    with cc show ?thesis unfolding tid
      by (intro exI [of _ ?m] exI [of _ c]) (simp only: m simp_thms)
  qed
qed

text \<open>
  C7 as amended. When the payout-initiation handler writes a transaction, it appends one
  payout to the collection: its gross amount is that of a completed collection of the
  task, its commission the double product of the gross amount and \<^verbatim>\<open>0.10\<close>, and its net
  amount the double difference of the gross amount and the commission. The gateway is
  sent the net amount rounded to an integer; the stored amounts are not rounded to
  integers. No operation changes the type, the amount, the commission or the net amount
  of a payout that has these amounts. The hook that runs before a save computes the
  same commission and net amount for a payout with a non-zero amount whose net amount is
  missing or zero, and changes no other transaction.
\<close>

theorem payout_commission:
  "(transactions (fst (b2c_payment s userId taskId phone gw)) \<noteq> transactions s \<longrightarrow>
      (\<exists>x c. transactions (fst (b2c_payment s userId taskId phone gw)) = transactions s @ [x] \<and>
         transactionType x = B2C \<and> tx_task x = taskId \<and>
         c < length (transactions s) \<and> transactionType (transactions s ! c) = C2B \<and>
         tx_task (transactions s ! c) = taskId \<and> tx_status (transactions s ! c) = COMPLETED \<and>
         amount x = amount (transactions s ! c) \<and>
         commission x = fl64 (amount x * tenth) \<and>
         netAmount x = Some (fl64 (amount x - commission x)) \<and>
         (gateway_log (fst (b2c_payment s userId taskId phone gw)) = gateway_log s @ [AccessToken] \<or>
          gateway_log (fst (b2c_payment s userId taskId phone gw))
            = gateway_log s @ [AccessToken,
                B2C_paymentrequest (round (fl64 (amount x - commission x))) (phoneNumber x)]))) \<and>
   (i < length (transactions s) \<and> transactionType (transactions s ! i) = B2C \<and>
    payout_amounts (transactions s ! i) \<longrightarrow>
      i < length (transactions (exec s now x)) \<and>
      same_amounts (transactions s ! i) (transactions (exec s now x) ! i)) \<and>
   (transactionType y = B2C \<and> amount y \<noteq> 0 \<and> (netAmount y = None \<or> netAmount y = Some 0) \<longrightarrow>
      pre_save y = y\<lparr>commission := fl64 (amount y * tenth),
                      netAmount := Some (fl64 (amount y - fl64 (amount y * tenth)))\<rparr>) \<and>
   (transactionType y \<noteq> B2C \<or> amount y = 0 \<or> (\<exists>n. netAmount y = Some n \<and> n \<noteq> 0) \<longrightarrow>
      pre_save y = y)"
proof (intro conjI impI)
  assume "transactions (fst (b2c_payment s userId taskId phone gw)) \<noteq> transactions s"
  from b2c_payment_creates [OF this]
  show "\<exists>x c. transactions (fst (b2c_payment s userId taskId phone gw)) = transactions s @ [x] \<and>
         transactionType x = B2C \<and> tx_task x = taskId \<and>
         c < length (transactions s) \<and> transactionType (transactions s ! c) = C2B \<and>
         tx_task (transactions s ! c) = taskId \<and> tx_status (transactions s ! c) = COMPLETED \<and>
         amount x = amount (transactions s ! c) \<and>
         commission x = fl64 (amount x * tenth) \<and>
         netAmount x = Some (fl64 (amount x - commission x)) \<and>
         (gateway_log (fst (b2c_payment s userId taskId phone gw)) = gateway_log s @ [AccessToken] \<or>
          gateway_log (fst (b2c_payment s userId taskId phone gw))
            = gateway_log s @ [AccessToken,
                B2C_paymentrequest (round (fl64 (amount x - commission x))) (phoneNumber x)])"
    unfolding payout_amounts_def by blast
next
  assume a: "i < length (transactions s) \<and> transactionType (transactions s ! i) = B2C \<and>
    payout_amounts (transactions s ! i)"
  with kept_exec [of s now x]
  show "i < length (transactions (exec s now x))"
    and "same_amounts (transactions s ! i) (transactions (exec s now x) ! i)"
    by (simp_all add: amounts_kept_def)
next
  assume "transactionType y = B2C \<and> amount y \<noteq> 0 \<and> (netAmount y = None \<or> netAmount y = Some 0)"
  then show "pre_save y = y\<lparr>commission := fl64 (amount y * tenth),
                      netAmount := Some (fl64 (amount y - fl64 (amount y * tenth)))\<rparr>"
    by (simp add: pre_save_def)
next
  assume "transactionType y \<noteq> B2C \<or> amount y = 0 \<or> (\<exists>n. netAmount y = Some n \<and> n \<noteq> 0)"
  then show "pre_save y = y"
    by (auto simp: pre_save_def)
qed

text \<open>
  C7 as amended, for a collection of 1000, whose payout has the commission 100 and the
  net amount 900; for a collection of the double nearest to 3.888888888888889, whose
  payout keeps the net amount 3.5 while the gateway is sent 4; for a collection of 1005,
  whose payout keeps its amounts when it is reported; and for the hook on a payout of
  1000 that has no net amount.
\<close>

theorem payout_commission_witness:
  "transactions (run init (post @ work @ collect_1000 @ pay_out))
     \<noteq> transactions (run init (post @ work @ collect_1000)) \<and>
   amount (transactions (run init (post @ work @ collect_1000 @ pay_out)) ! 1) = 1000 \<and>
   commission (transactions (run init (post @ work @ collect_1000 @ pay_out)) ! 1) = 100 \<and>
   netAmount (transactions (run init (post @ work @ collect_1000 @ pay_out)) ! 1) = Some 900 \<and>
   netAmount (transactions (run init (post @ work @ collect_odd @ pay_out)) ! 1) = Some (7 / 2) \<and>
   gateway_log (run init (post @ work @ collect_odd @ pay_out))
     = [AccessToken, C2B_simulate (8756999275442631 / 2251799813685248) ''254712345678'',
        AccessToken, B2C_paymentrequest 4 ''254722000000''] \<and>
   1 < length (transactions (run init (post @ work @ collect_1005 @ pay_out))) \<and>
   transactionType (transactions (run init (post @ work @ collect_1005 @ pay_out)) ! 1) = B2C \<and>
   payout_amounts (transactions (run init (post @ work @ collect_1005 @ pay_out)) ! 1) \<and>
   same_amounts (transactions (run init (post @ work @ collect_1005 @ pay_out)) ! 1)
     (transactions (exec (run init (post @ work @ collect_1005 @ pay_out)) 8
        (B2c_result (Some (payout_done ''c2'' ''o2'')))) ! 1) \<and>
   netAmount (transactions (exec (run init (post @ work @ collect_1005 @ pay_out)) 8
        (B2c_result (Some (payout_done ''c2'' ''o2'')))) ! 1) = Some (1809 / 2) \<and>
   pre_save (new_transaction B2C 1000 0 None ''254722000000'' (Some 10) (Some 20) (Some 1))
     = new_transaction B2C 1000 100 (Some 900) ''254722000000'' (Some 10) (Some 20) (Some 1) \<and>
   pre_save (new_transaction C2B 1000 0 None ''254712345678'' (Some 10) None (Some 1))
     = new_transaction C2B 1000 0 None ''254712345678'' (Some 10) None (Some 1)"
proof -
  have p: "run init (post @ work @ collect_1000 @ pay_out)
      = fst (b2c_payment (run init (post @ work @ collect_1000)) 10 (Some 1) ''0722000000''
               (accepted ''c2'' ''o2''))"
    by (simp add: run_append pay_out_def)
  have a: "amount (transactions (run init (post @ work @ collect_1000 @ pay_out)) ! 1) = 1000 \<and>
      commission (transactions (run init (post @ work @ collect_1000 @ pay_out)) ! 1) = 100 \<and>
      netAmount (transactions (run init (post @ work @ collect_1000 @ pay_out)) ! 1) = Some 900"
    by (simp add: scenario_defs handler_defs)
  have l: "length (transactions (run init (post @ work @ collect_1000))) = 1"
    "length (transactions (run init (post @ work @ collect_1000 @ pay_out))) = 2"
    by (simp_all add: scenario_defs handler_defs)
  then have c: "transactions (run init (post @ work @ collect_1000 @ pay_out))
      \<noteq> transactions (run init (post @ work @ collect_1000))"
    by auto
  note v = payout_commission [of "run init (post @ work @ collect_1000)" 10 "Some 1"
      "''0722000000''" "accepted ''c2'' ''o2''" 1 8 "B2c_result (Some (payout_done ''c2'' ''o2''))"
      "new_transaction B2C 1000 0 None ''254722000000'' (Some 10) (Some 20) (Some 1)"]
  from v c have "\<exists>x. transactions (run init (post @ work @ collect_1000 @ pay_out))
         = transactions (run init (post @ work @ collect_1000)) @ [x] \<and>
       commission x = fl64 (amount x * tenth) \<and>
       netAmount x = Some (fl64 (amount x - commission x))"
    unfolding p by blast
  have o: "netAmount (transactions (run init (post @ work @ collect_odd @ pay_out)) ! 1)
      = Some (7 / 2)"
    by (simp add: scenario_defs handler_defs)
  have e: "gateway_log (run init (post @ work @ collect_odd @ pay_out))
     = [AccessToken, C2B_simulate (8756999275442631 / 2251799813685248) ''254712345678'',
        AccessToken, B2C_paymentrequest 4 ''254722000000'']"
    by (simp add: scenario_defs handler_defs round_def)
  have g: "1 < length (transactions (run init (post @ work @ collect_1005 @ pay_out))) \<and>
      transactionType (transactions (run init (post @ work @ collect_1005 @ pay_out)) ! 1) = B2C \<and>
      payout_amounts (transactions (run init (post @ work @ collect_1005 @ pay_out)) ! 1)"
    by (simp add: scenario_defs handler_defs payout_amounts_def)
  have h: "netAmount (transactions (exec (run init (post @ work @ collect_1005 @ pay_out)) 8
        (B2c_result (Some (payout_done ''c2'' ''o2'')))) ! 1) = Some (1809 / 2)"
    by (simp add: scenario_defs handler_defs)
  note w = payout_commission [of "run init (post @ work @ collect_1005 @ pay_out)" 10 "Some 1"
      "''0722000000''" "accepted ''c2'' ''o2''" 1 8 "B2c_result (Some (payout_done ''c2'' ''o2''))"
      "new_transaction C2B 1000 0 None ''254712345678'' (Some 10) None (Some 1)"]
  from w g have k: "same_amounts (transactions (run init (post @ work @ collect_1005 @ pay_out)) ! 1)
     (transactions (exec (run init (post @ work @ collect_1005 @ pay_out)) 8
        (B2c_result (Some (payout_done ''c2'' ''o2'')))) ! 1)"
    by blast
  have y: "transactionType (new_transaction B2C 1000 0 None ''254722000000'' (Some 10) (Some 20)
             (Some 1)) = B2C \<and>
      amount (new_transaction B2C 1000 0 None ''254722000000'' (Some 10) (Some 20) (Some 1)) \<noteq> 0 \<and>
      (netAmount (new_transaction B2C 1000 0 None ''254722000000'' (Some 10) (Some 20) (Some 1))
         = None \<or>
       netAmount (new_transaction B2C 1000 0 None ''254722000000'' (Some 10) (Some 20) (Some 1))
         = Some 0)"
    by (simp add: new_transaction_def)
  from v y have "pre_save (new_transaction B2C 1000 0 None ''254722000000'' (Some 10) (Some 20)
      (Some 1))
    = (new_transaction B2C 1000 0 None ''254722000000'' (Some 10) (Some 20) (Some 1))
        \<lparr>commission := fl64 (amount (new_transaction B2C 1000 0 None ''254722000000'' (Some 10)
                                      (Some 20) (Some 1)) * tenth),
         netAmount := Some (fl64 (amount (new_transaction B2C 1000 0 None ''254722000000''
                                            (Some 10) (Some 20) (Some 1))
                       - fl64 (amount (new_transaction B2C 1000 0 None ''254722000000'' (Some 10)
                                         (Some 20) (Some 1)) * tenth)))\<rparr>"
    by blast
  then have h1: "pre_save (new_transaction B2C 1000 0 None ''254722000000'' (Some 10) (Some 20)
      (Some 1))
    = new_transaction B2C 1000 100 (Some 900) ''254722000000'' (Some 10) (Some 20) (Some 1)"
    by (simp add: new_transaction_def double_defs)
  have "transactionType (new_transaction C2B 1000 0 None ''254712345678'' (Some 10) None (Some 1))
      \<noteq> B2C"
    by (simp add: new_transaction_def)
  with w have h2: "pre_save (new_transaction C2B 1000 0 None ''254712345678'' (Some 10) None (Some 1))
     = new_transaction C2B 1000 0 None ''254712345678'' (Some 10) None (Some 1)"
    by blast
  from a c o e g h k h1 h2 show ?thesis by blast
qed

text \<open>
  C7 as stated fails. For a collection of 3 the payout has the commission
  0.30000000000000004, the double product of 3 and \<^verbatim>\<open>0.10\<close>, which is not a tenth of 3,
  and the net amount 2.7 (the double), which is not 3 less this commission.
\<close>

theorem payout_commission_inexact_counterexample:
  "amount (transactions (run init (post @ work @ collect_3 @ pay_out)) ! 1) = 3 \<and>
   commission (transactions (run init (post @ work @ collect_3 @ pay_out)) ! 1)
     = 1351079888211149 / 4503599627370496 \<and>
   commission (transactions (run init (post @ work @ collect_3 @ pay_out)) ! 1) \<noteq> 3 / 10 \<and>
   netAmount (transactions (run init (post @ work @ collect_3 @ pay_out)) ! 1)
     = Some (3039929748475085 / 1125899906842624) \<and>
   netAmount (transactions (run init (post @ work @ collect_3 @ pay_out)) ! 1)
     \<noteq> Some (3 - 1351079888211149 / 4503599627370496)"
  by (simp add: scenario_defs handler_defs)

end
